theory Spec2Isabelle
  imports Complex_Main "HOL-Library.Char_ord" "HOL-Library.List_Lexorder" "HOL-Library.Option_ord"
begin

section \<open>Data model\<close>

text \<open>
  The service keeps one pandas DataFrame, \<^verbatim>\<open>self.df\<close>. A row of it carries its index
  label (\<^verbatim>\<open>row.name\<close>), the six text columns the source names and the price column.
  A text cell may be missing (NaN after \<^verbatim>\<open>read_csv\<close>): that is \<open>None\<close>. The price is
  never NaN, since \<^verbatim>\<open>load_data\<close> drops such rows; it is an exact real number here
  (infinities and rounding are outside the model). Columns of the CSV file that the
  source never names are not part of the model.
\<close>

type_synonym cell = "string option"

record row =
  idx :: int
  nombre_comercial :: cell
  principio_activo :: cell
  fabricante :: cell
  concentracion :: cell
  canal :: cell
  unidad_de_dispensacion :: cell
  precio_por_tableta :: real

text \<open>
  \<^verbatim>\<open>load_data\<close> returns \<^verbatim>\<open>pd.DataFrame()\<close>, a frame with no columns and no rows, when
  the file is absent; otherwise a table with the columns of the file.
\<close>

datatype dataframe = NoColumns | Table "row list"

fun frame_rows :: "dataframe \<Rightarrow> row list" where
  "frame_rows NoColumns = []"
| "frame_rows (Table rs) = rs"

definition column_names :: "string list" where
  "column_names = [''nombre_comercial'', ''principio_activo'', ''fabricante'',
     ''concentracion'', ''canal'', ''unidad_de_dispensacion'', ''precio_por_tableta'']"

fun columns :: "dataframe \<Rightarrow> string list" where
  "columns NoColumns = []"
| "columns (Table rs) = column_names"

text \<open>\<^verbatim>\<open>len(df)\<close> and \<^verbatim>\<open>df.empty\<close> (true when an axis has length 0).\<close>

definition len_df :: "dataframe \<Rightarrow> nat" where
  "len_df df = length (frame_rows df)"

definition empty_df :: "dataframe \<Rightarrow> bool" where
  "empty_df df = (frame_rows df = [])"

text \<open>
  Exceptions the code can raise. The string of \<open>ValueError\<close> is the parameter that the
  library's message names; the string of \<open>KeyError\<close> is the missing column.
\<close>

datatype error = KeyError string | ValueError string | IndexError

definition seq :: "error + 'a \<Rightarrow> ('a \<Rightarrow> error + 'b) \<Rightarrow> error + 'b" where
  "seq m f = (case m of Inl e \<Rightarrow> Inl e | Inr x \<Rightarrow> f x)"

text \<open>A Python float that may be NaN: \<open>None\<close> is NaN.\<close>

type_synonym pyfloat = "real option"

section \<open>The filter engine: \<^verbatim>\<open>DataService.filter_data\<close>\<close>

text \<open>
  The keyword parameters of \<^verbatim>\<open>filter_data\<close> with their defaults. A text parameter is
  a Python \<^verbatim>\<open>str\<close> or \<^verbatim>\<open>None\<close>, a bound a float or \<^verbatim>\<open>None\<close>, the limit an int or
  \<^verbatim>\<open>None\<close>.
\<close>

record filter_args =
  active_ingredient :: "string option"
  manufacturer :: "string option"
  concentration :: "string option"
  channel :: "string option"
  dispensing_unit :: "string option"
  min_price :: "real option"
  max_price :: "real option"
  sort_by :: string
  sort_order :: string
  limit :: "int option"

definition default_args :: filter_args where
  "default_args = \<lparr> active_ingredient = None, manufacturer = None, concentration = None,
     channel = None, dispensing_unit = None, min_price = None, max_price = None,
     sort_by = ''precio_por_tableta'', sort_order = ''asc'', limit = Some 50 \<rparr>"

text \<open>Python truthiness of a text parameter: \<^verbatim>\<open>None\<close> and the empty string are false.\<close>

definition truthy :: "string option \<Rightarrow> bool" where
  "truthy p = (case p of None \<Rightarrow> False | Some s \<Rightarrow> s \<noteq> [])"

text \<open>
  \<^verbatim>\<open>if p: filtered_df = filtered_df[filtered_df[c] == p]\<close>. Reading a column of the
  frame without columns raises \<^verbatim>\<open>KeyError\<close>; a NaN cell equals no string.
\<close>

definition where_eq :: "string \<Rightarrow> (row \<Rightarrow> cell) \<Rightarrow> string option \<Rightarrow> dataframe \<Rightarrow> error + dataframe" where
  "where_eq c col p df =
     (if truthy p then
        (case df of
           NoColumns \<Rightarrow> Inl (KeyError c)
         | Table rs \<Rightarrow> Inr (Table (filter (\<lambda>r. col r = p) rs)))
      else Inr df)"

text \<open>\<^verbatim>\<open>if min_price is not None: filtered_df = filtered_df[price >= min_price]\<close>.\<close>

definition where_ge :: "real option \<Rightarrow> dataframe \<Rightarrow> error + dataframe" where
  "where_ge b df =
     (case b of
        None \<Rightarrow> Inr df
      | Some lo \<Rightarrow>
          (case df of
             NoColumns \<Rightarrow> Inl (KeyError ''precio_por_tableta'')
           | Table rs \<Rightarrow> Inr (Table (filter (\<lambda>r. lo \<le> precio_por_tableta r) rs))))"

definition where_le :: "real option \<Rightarrow> dataframe \<Rightarrow> error + dataframe" where
  "where_le b df =
     (case b of
        None \<Rightarrow> Inr df
      | Some hi \<Rightarrow>
          (case df of
             NoColumns \<Rightarrow> Inl (KeyError ''precio_por_tableta'')
           | Table rs \<Rightarrow> Inr (Table (filter (\<lambda>r. precio_por_tableta r \<le> hi) rs))))"

text \<open>\<^verbatim>\<open>str.lower\<close>, on the ASCII letters (no other character lowers to a letter of "asc").\<close>

definition lower_char :: "char \<Rightarrow> char" where
  "lower_char c =
     (let n = (of_char c :: nat) in if 65 \<le> n \<and> n \<le> 90 then char_of (n + 32) else c)"

definition lower :: "string \<Rightarrow> string" where
  "lower s = map lower_char s"

text \<open>
  \<^verbatim>\<open>sort_values(by=c, ascending=a)\<close> as pandas' \<^verbatim>\<open>nargsort\<close> orders a column: the
  rows with a NaN key go last; the others are sorted by the key, and for a descending
  sort the rows are reversed, sorted ascending and reversed again. Strings compare as
  Python compares them (lexicographically by code point, which is the order of their
  UTF-8 bytes). The sort here is stable; pandas' default sort leaves the order of rows
  with equal keys open, and no statement below depends on it.
\<close>

definition sort_rows :: "(row \<Rightarrow> 'k::linorder) \<Rightarrow> bool \<Rightarrow> row list \<Rightarrow> row list" where
  "sort_rows key ascending rs =
     (if ascending then sort_key key rs else rev (sort_key key (rev rs)))"

definition cell_key :: "(row \<Rightarrow> cell) \<Rightarrow> row \<Rightarrow> string" where
  "cell_key col r = (case col r of None \<Rightarrow> [] | Some s \<Rightarrow> s)"

definition sort_text :: "(row \<Rightarrow> cell) \<Rightarrow> bool \<Rightarrow> row list \<Rightarrow> row list" where
  "sort_text col ascending rs =
     sort_rows (cell_key col) ascending (filter (\<lambda>r. col r \<noteq> None) rs)
       @ filter (\<lambda>r. col r = None) rs"

definition text_column :: "string \<Rightarrow> (row \<Rightarrow> cell) option" where
  "text_column c =
     (if c = ''nombre_comercial'' then Some nombre_comercial
      else if c = ''principio_activo'' then Some principio_activo
      else if c = ''fabricante'' then Some fabricante
      else if c = ''concentracion'' then Some concentracion
      else if c = ''canal'' then Some canal
      else if c = ''unidad_de_dispensacion'' then Some unidad_de_dispensacion
      else None)"

definition sort_values :: "string \<Rightarrow> bool \<Rightarrow> row list \<Rightarrow> row list" where
  "sort_values c ascending rs =
     (case text_column c of
        Some col \<Rightarrow> sort_text col ascending rs
      | None \<Rightarrow> sort_rows precio_por_tableta ascending rs)"

text \<open>\<^verbatim>\<open>if sort_by in filtered_df.columns: filtered_df = filtered_df.sort_values(...)\<close>.\<close>

definition apply_sort :: "string \<Rightarrow> string \<Rightarrow> dataframe \<Rightarrow> dataframe" where
  "apply_sort by ord df =
     (if by \<in> set (columns df)
      then Table (sort_values by (lower ord = ''asc'') (frame_rows df))
      else df)"

text \<open>
  \<^verbatim>\<open>DataFrame.head(n)\<close>: the first \<open>n\<close> rows, and for a negative \<open>n\<close> all rows but the
  last \<open>-n\<close>.
\<close>

definition head :: "int \<Rightarrow> 'a list \<Rightarrow> 'a list" where
  "head n xs = (if 0 \<le> n then take (nat n) xs else take (length xs - nat (- n)) xs)"

fun head_df :: "int \<Rightarrow> dataframe \<Rightarrow> dataframe" where
  "head_df n NoColumns = NoColumns"
| "head_df n (Table rs) = Table (head n rs)"

text \<open>\<^verbatim>\<open>if limit: filtered_df = filtered_df.head(limit)\<close>: \<^verbatim>\<open>None\<close> and 0 are false.\<close>

definition apply_limit :: "int option \<Rightarrow> dataframe \<Rightarrow> dataframe" where
  "apply_limit l df =
     (case l of None \<Rightarrow> df | Some n \<Rightarrow> if n \<noteq> 0 then head_df n df else df)"

text \<open>
  \<^verbatim>\<open>filter_data\<close>. The first statement copies \<^verbatim>\<open>self.df\<close>; on values a copy is the
  value itself (the objects and their identity are modelled in the section on the
  store).
\<close>

definition filter_data :: "dataframe \<Rightarrow> filter_args \<Rightarrow> error + dataframe" where
  "filter_data df a =
     seq (where_eq ''principio_activo'' principio_activo (active_ingredient a) df) (\<lambda>d1.
     seq (where_eq ''fabricante'' fabricante (manufacturer a) d1) (\<lambda>d2.
     seq (where_eq ''concentracion'' concentracion (concentration a) d2) (\<lambda>d3.
     seq (where_eq ''canal'' canal (channel a) d3) (\<lambda>d4.
     seq (where_eq ''unidad_de_dispensacion'' unidad_de_dispensacion (dispensing_unit a) d4) (\<lambda>d5.
     seq (where_ge (min_price a) d5) (\<lambda>d6.
     seq (where_le (max_price a) d6) (\<lambda>d7.
     Inr (apply_limit (limit a) (apply_sort (sort_by a) (sort_order a) d7)))))))))"

text \<open>What a row must satisfy to pass the filters that \<^verbatim>\<open>filter_data\<close> applies.\<close>

definition passes :: "filter_args \<Rightarrow> row \<Rightarrow> bool" where
  "passes a r =
     ((truthy (active_ingredient a) \<longrightarrow> principio_activo r = active_ingredient a) \<and>
      (truthy (manufacturer a) \<longrightarrow> fabricante r = manufacturer a) \<and>
      (truthy (concentration a) \<longrightarrow> concentracion r = concentration a) \<and>
      (truthy (channel a) \<longrightarrow> canal r = channel a) \<and>
      (truthy (dispensing_unit a) \<longrightarrow> unidad_de_dispensacion r = dispensing_unit a) \<and>
      (\<forall>lo. min_price a = Some lo \<longrightarrow> lo \<le> precio_por_tableta r) \<and>
      (\<forall>hi. max_price a = Some hi \<longrightarrow> precio_por_tableta r \<le> hi))"

section \<open>Statistics of a pandas Series\<close>

text \<open>
  The Series methods the service calls on the price column, on a list of prices without
  NaN. Of an empty Series each of them is NaN; the sample standard deviation (pandas'
  default \<^verbatim>\<open>ddof=1\<close>) is NaN of fewer than two values.
\<close>

definition series_min :: "real list \<Rightarrow> pyfloat" where
  "series_min xs = (case xs of [] \<Rightarrow> None | x # ys \<Rightarrow> Some (fold min ys x))"

definition series_max :: "real list \<Rightarrow> pyfloat" where
  "series_max xs = (case xs of [] \<Rightarrow> None | x # ys \<Rightarrow> Some (fold max ys x))"

definition series_mean :: "real list \<Rightarrow> pyfloat" where
  "series_mean xs = (if xs = [] then None else Some (sum_list xs / real (length xs)))"

definition series_median :: "real list \<Rightarrow> pyfloat" where
  "series_median xs =
     (let s = sort xs; n = length s in
      if n = 0 then None
      else if odd n then Some (s ! (n div 2))
      else Some ((s ! (n div 2 - 1) + s ! (n div 2)) / 2))"

definition series_std :: "real list \<Rightarrow> pyfloat" where
  "series_std xs =
     (let n = length xs in
      if n < 2 then None
      else let m = sum_list xs / real n in
        Some (sqrt (sum_list (map (\<lambda>x. (x - m)\<^sup>2) xs) / real (n - 1))))"

text \<open>
  \<^verbatim>\<open>Series.quantile(q)\<close> with the default linear interpolation: the value at the
  position \<open>q * (n - 1)\<close> of the sorted values, interpolated between its two
  neighbours.
\<close>

definition interpolate :: "real list \<Rightarrow> real \<Rightarrow> real" where
  "interpolate s h =
     (let lo = nat \<lfloor>h\<rfloor>;
          hi = (if lo + 1 < length s then lo + 1 else lo)
      in s ! lo + (h - real lo) * (s ! hi - s ! lo))"

definition series_quantile :: "real \<Rightarrow> real list \<Rightarrow> pyfloat" where
  "series_quantile q xs =
     (let s = sort xs; n = length s in
      if n = 0 then None else Some (interpolate s (q * real (n - 1))))"

text \<open>Comparison of floats: false when either side is NaN.\<close>

definition float_le :: "pyfloat \<Rightarrow> pyfloat \<Rightarrow> bool" where
  "float_le a b = (case (a, b) of (Some x, Some y) \<Rightarrow> x \<le> y | _ \<Rightarrow> False)"

text \<open>\<^verbatim>\<open>df['precio_por_tableta']\<close>: \<^verbatim>\<open>KeyError\<close> on the frame without columns.\<close>

definition price_column :: "dataframe \<Rightarrow> error + real list" where
  "price_column df =
     (case df of
        NoColumns \<Rightarrow> Inl (KeyError ''precio_por_tableta'')
      | Table rs \<Rightarrow> Inr (map precio_por_tableta rs))"

text \<open>
  \<^verbatim>\<open>groupby(c)\<close>: one group for each distinct key that is not NaN, the groups in the
  order of their keys, each with its rows in their order.
\<close>

definition groupby :: "(row \<Rightarrow> 'k::linorder option) \<Rightarrow> row list \<Rightarrow> ('k \<times> row list) list" where
  "groupby key rs =
     map (\<lambda>k. (k, filter (\<lambda>r. key r = Some k) rs)) (sort (remdups (List.map_filter key rs)))"

section \<open>The aggregation engine: \<^verbatim>\<open>get_summary_stats\<close>\<close>

record price_stats =
  stat_min :: pyfloat
  stat_max :: pyfloat
  stat_mean :: pyfloat
  stat_median :: pyfloat
  stat_std :: pyfloat

record group_stats =
  group_key :: string
  group_count :: nat
  group_min_price :: pyfloat
  group_max_price :: pyfloat
  group_avg_price :: pyfloat

text \<open>
  The dictionary \<^verbatim>\<open>stats\<close>: the keys \<^verbatim>\<open>'manufacturers'\<close> and \<^verbatim>\<open>'active_ingredients'\<close>
  are present or absent.
\<close>

record summary =
  stats_count :: nat
  stats_price_stats :: price_stats
  stats_manufacturers :: "group_stats list option"
  stats_active_ingredients :: "group_stats list option"

text \<open>\<^verbatim>\<open>groupby(c).agg({'precio_por_tableta': ['count', 'min', 'max', 'mean']})\<close>.\<close>

definition breakdown :: "(row \<Rightarrow> cell) \<Rightarrow> row list \<Rightarrow> group_stats list" where
  "breakdown col rs =
     map (\<lambda>(k, g).
        \<lparr> group_key = k, group_count = length g,
          group_min_price = series_min (map precio_por_tableta g),
          group_max_price = series_max (map precio_por_tableta g),
          group_avg_price = series_mean (map precio_por_tableta g) \<rparr>)
       (groupby col rs)"

text \<open>The body of \<^verbatim>\<open>get_summary_stats\<close> after the call of \<^verbatim>\<open>filter_data\<close>.\<close>

definition summary_of_view :: "dataframe \<Rightarrow> string option \<Rightarrow> string option \<Rightarrow> error + summary" where
  "summary_of_view filtered_df ai m =
     seq (price_column filtered_df) (\<lambda>prices.
     Inr \<lparr> stats_count = len_df filtered_df,
           stats_price_stats =
             \<lparr> stat_min = series_min prices, stat_max = series_max prices,
               stat_mean = series_mean prices, stat_median = series_median prices,
               stat_std = series_std prices \<rparr>,
           stats_manufacturers =
             (if truthy ai then Some (breakdown fabricante (frame_rows filtered_df)) else None),
           stats_active_ingredients =
             (if truthy m then Some (breakdown principio_activo (frame_rows filtered_df)) else None) \<rparr>)"

definition get_summary_stats :: "dataframe \<Rightarrow> string option \<Rightarrow> string option \<Rightarrow> error + summary" where
  "get_summary_stats df ai m =
     seq (filter_data df (default_args \<lparr> active_ingredient := ai, manufacturer := m \<rparr>)) (\<lambda>filtered_df.
     summary_of_view filtered_df ai m)"

section \<open>The aggregation engine: \<^verbatim>\<open>get_histogram_data\<close>\<close>

text \<open>
  \<^verbatim>\<open>np.histogram(a, bins)\<close> for an integer \<^verbatim>\<open>bins\<close>, as numpy defines it. A bin count
  below 1 raises \<^verbatim>\<open>ValueError\<close> (its message names \<^verbatim>\<open>bins\<close>) before the data is
  looked at. The range is that of the data, \<open>(0, 1)\<close> for no data; a range of width 0
  is widened by 1/2 on each side. The edges are \<^verbatim>\<open>linspace(first, last, bins + 1)\<close>.
  Bin \<open>i\<close> counts the values in \<open>[edge i, edge (i + 1))\<close>, and the last bin also
  counts the values equal to the last edge.
\<close>

definition outer_edges :: "real list \<Rightarrow> real \<times> real" where
  "outer_edges xs =
     (let (first_edge, last_edge) =
            (case xs of [] \<Rightarrow> (0, 1) | x # ys \<Rightarrow> (fold min ys x, fold max ys x))
      in if first_edge = last_edge then (first_edge - 1 / 2, last_edge + 1 / 2)
         else (first_edge, last_edge))"

definition linspace :: "real \<Rightarrow> real \<Rightarrow> nat \<Rightarrow> real list" where
  "linspace start stop n =
     map (\<lambda>i. start + real i * ((stop - start) / real n)) [0..<n] @ [stop]"

definition in_bin :: "real list \<Rightarrow> nat \<Rightarrow> nat \<Rightarrow> real \<Rightarrow> bool" where
  "in_bin edges n i x =
     (edges ! i \<le> x \<and> (if i + 1 = n then x \<le> edges ! (i + 1) else x < edges ! (i + 1)))"

definition np_histogram :: "real list \<Rightarrow> int \<Rightarrow> error + (nat list \<times> real list)" where
  "np_histogram xs bins =
     (if bins < 1 then Inl (ValueError ''bins'')
      else let n = nat bins;
               (first_edge, last_edge) = outer_edges xs;
               edges = linspace first_edge last_edge n
           in Inr (map (\<lambda>i. length (filter (in_bin edges n i) xs)) [0..<n], edges))"

text \<open>
  One dictionary of \<^verbatim>\<open>histogram_data\<close>; its key \<^verbatim>\<open>'bin'\<close>, a label formatted from
  the two edges, is left out.
\<close>

record bin =
  binStart :: real
  binEnd :: real
  binCount :: nat
  normalizedCount :: real

text \<open>The body of \<^verbatim>\<open>get_histogram_data\<close> after the call of \<^verbatim>\<open>filter_data\<close>.\<close>

definition histogram_of_view :: "dataframe \<Rightarrow> int \<Rightarrow> error + bin list" where
  "histogram_of_view filtered_df bins =
     seq (price_column filtered_df) (\<lambda>prices.
     seq (np_histogram prices bins) (\<lambda>(hist, bin_edges).
     Inr (map (\<lambda>i.
            \<lparr> binStart = bin_edges ! i, binEnd = bin_edges ! (i + 1), binCount = hist ! i,
              normalizedCount =
                (if 0 < len_df filtered_df then real (hist ! i) / real (len_df filtered_df)
                 else 0) \<rparr>)
          [0..<length hist])))"

definition get_histogram_data :: "dataframe \<Rightarrow> string option \<Rightarrow> string option \<Rightarrow> int \<Rightarrow> error + bin list" where
  "get_histogram_data df ai m bins =
     seq (filter_data df (default_args \<lparr> active_ingredient := ai, manufacturer := m \<rparr>)) (\<lambda>filtered_df.
     histogram_of_view filtered_df bins)"

section \<open>The aggregation engine: \<^verbatim>\<open>get_boxplot_data\<close>\<close>

text \<open>
  The name of a group is a value of the grouping column: a string, or a number when the
  rows are grouped by the price column.
\<close>

datatype group_name = Text string | Number real

record box =
  box_name :: group_name
  box_min :: pyfloat
  box_q1 :: pyfloat
  box_median :: pyfloat
  box_q3 :: pyfloat
  box_max :: pyfloat
  box_count :: nat

text \<open>The function returns the list of boxes, or the dictionary \<^verbatim>\<open>{'error': ...}\<close>.\<close>

datatype boxplot_result = ColumnNotFound string | Boxes "box list"

definition named_groups :: "string \<Rightarrow> row list \<Rightarrow> (group_name \<times> row list) list" where
  "named_groups c rs =
     (case text_column c of
        Some col \<Rightarrow> map (\<lambda>(k, g). (Text k, g)) (groupby col rs)
      | None \<Rightarrow> map (\<lambda>(k, g). (Number k, g)) (groupby (\<lambda>r. Some (precio_por_tableta r)) rs))"

definition box_of :: "group_name \<Rightarrow> row list \<Rightarrow> box" where
  "box_of name g =
     (let prices = sort (map precio_por_tableta g) in
      \<lparr> box_name = name, box_min = series_min prices,
        box_q1 = series_quantile (1 / 4) prices, box_median = series_median prices,
        box_q3 = series_quantile (3 / 4) prices, box_max = series_max prices,
        box_count = length g \<rparr>)"

text \<open>
  \<^verbatim>\<open>xs.sort(key=k, reverse=True)\<close>: descending by the key, and stable (elements with
  equal keys keep their order).
\<close>

definition sort_reverse :: "('a \<Rightarrow> 'k::linorder) \<Rightarrow> 'a list \<Rightarrow> 'a list" where
  "sort_reverse k xs = rev (sort_key k (rev xs))"

text \<open>
  The slice \<^verbatim>\<open>xs[:n]\<close>: the first \<open>n\<close> elements, and for a negative \<open>n\<close> all
  elements but the last \<open>-n\<close>.
\<close>

definition slice_to :: "int \<Rightarrow> 'a list \<Rightarrow> 'a list" where
  "slice_to n xs = (if 0 \<le> n then take (nat n) xs else take (length xs - nat (- n)) xs)"

text \<open>The body of \<^verbatim>\<open>get_boxplot_data\<close> after the call of \<^verbatim>\<open>filter_data\<close>.\<close>

definition boxplot_of_view :: "dataframe \<Rightarrow> string \<Rightarrow> int \<Rightarrow> error + boxplot_result" where
  "boxplot_of_view filtered_df group_by lmt =
     (if group_by \<in> set (columns filtered_df) then
        let groups = named_groups group_by (frame_rows filtered_df);
            boxplot_data = map (\<lambda>(name, g). box_of name g)
                             (filter (\<lambda>(name, g). \<not> length g < 5) groups)
        in Inr (Boxes (slice_to lmt (sort_reverse box_median boxplot_data)))
      else Inr (ColumnNotFound group_by))"

definition get_boxplot_data :: "dataframe \<Rightarrow> string \<Rightarrow> string option \<Rightarrow> int \<Rightarrow> error + boxplot_result" where
  "get_boxplot_data df group_by ai lmt =
     seq (filter_data df (default_args \<lparr> active_ingredient := ai \<rparr>)) (\<lambda>filtered_df.
     boxplot_of_view filtered_df group_by lmt)"

section \<open>The clustering engine: \<^verbatim>\<open>get_clustering\<close>\<close>

text \<open>
  \<^verbatim>\<open>StandardScaler().fit_transform(X)\<close> on the one price column: scikit-learn rejects
  an array of no samples with \<^verbatim>\<open>ValueError\<close>; \<^verbatim>\<open>mean_\<close> is the mean,
  \<^verbatim>\<open>scale_\<close> the population standard deviation, replaced by 1 when it is 0.
\<close>

record scaler =
  scaler_mean :: real
  scaler_scale :: real

definition fit_transform :: "real list \<Rightarrow> error + (scaler \<times> real list)" where
  "fit_transform X =
     (if X = [] then Inl (ValueError ''X'')
      else let n = real (length X);
               mu = sum_list X / n;
               sd = sqrt (sum_list (map (\<lambda>x. (x - mu)\<^sup>2) X) / n);
               scale = (if sd = 0 then 1 else sd)
           in Inr (\<lparr> scaler_mean = mu, scaler_scale = scale \<rparr>, map (\<lambda>x. (x - mu) / scale) X))"

text \<open>
  \<^verbatim>\<open>KMeans(n_clusters=k, random_state=42).fit_predict(X)\<close>. The fitted model (the
  label of each sample and the centre of each cluster) is what scikit-learn's algorithm
  computes: a parameter \<open>km\<close> of the model. Before computing, scikit-learn validates:
  \<^verbatim>\<open>n_clusters\<close> below 1 is an invalid parameter, and fewer samples than clusters is a
  \<^verbatim>\<open>ValueError\<close>; both messages name \<^verbatim>\<open>n_clusters\<close>.
\<close>

record kmeans_model =
  kmeans_labels :: "nat list"
  kmeans_centers :: "real list"

type_synonym kmeans_algorithm = "nat \<Rightarrow> real list \<Rightarrow> kmeans_model"

definition fit_predict :: "kmeans_algorithm \<Rightarrow> int \<Rightarrow> real list \<Rightarrow> error + kmeans_model" where
  "fit_predict km n_clusters X =
     (if n_clusters < 1 then Inl (ValueError ''n_clusters'')
      else if int (length X) < n_clusters then Inl (ValueError ''n_clusters'')
      else Inr (km (nat n_clusters) X))"

text \<open>
  What the service relies on of a fitted model, and scikit-learn guarantees for a valid
  number of clusters: one label for each sample, and one centre for each cluster.
\<close>

definition kmeans_contract :: "kmeans_algorithm \<Rightarrow> bool" where
  "kmeans_contract km =
     (\<forall>k X. 1 \<le> k \<and> k \<le> length X \<longrightarrow>
        length (kmeans_labels (km k X)) = length X \<and> length (kmeans_centers (km k X)) = k)"

text \<open>
  \<^verbatim>\<open>filtered_df['cluster'] = values\<close>: assigning a column whose length is not that of
  the frame raises \<^verbatim>\<open>ValueError\<close>. The labelled view is the list of rows, each with
  its label.
\<close>

definition set_column :: "string \<Rightarrow> row list \<Rightarrow> 'a list \<Rightarrow> error + (row \<times> 'a) list" where
  "set_column c rs vals =
     (if length vals = length rs then Inr (zip rs vals) else Inl (ValueError c))"

record cluster_stat =
  cluster_id :: nat
  cluster_count :: nat
  cluster_min_price :: pyfloat
  cluster_max_price :: pyfloat
  cluster_avg_price :: pyfloat
  cluster_center :: real

record sample_point =
  point_id :: int
  point_nombre_comercial :: cell
  point_principio_activo :: cell
  point_fabricante :: cell
  point_precio_por_tableta :: real
  point_cluster :: nat

record clustering =
  cluster_stats :: "cluster_stat list"
  data_sample :: "sample_point list"

text \<open>
  The loop \<^verbatim>\<open>for i in range(n_clusters)\<close>; \<^verbatim>\<open>kmeans.cluster_centers_[i]\<close> raises
  \<^verbatim>\<open>IndexError\<close> past the last centre.
\<close>

definition cluster_stat_of :: "(row \<times> nat) list \<Rightarrow> kmeans_model \<Rightarrow> scaler \<Rightarrow> nat \<Rightarrow> error + cluster_stat" where
  "cluster_stat_of labelled model sc i =
     (let cluster_df = map fst (filter (\<lambda>(r, l). l = i) labelled);
          prices = map precio_por_tableta cluster_df
      in if i < length (kmeans_centers model)
         then Inr \<lparr> cluster_id = i, cluster_count = length cluster_df,
                    cluster_min_price = series_min prices, cluster_max_price = series_max prices,
                    cluster_avg_price = series_mean prices,
                    cluster_center = kmeans_centers model ! i * scaler_scale sc + scaler_mean sc \<rparr>
         else Inl IndexError)"

fun collect :: "(error + 'a) list \<Rightarrow> error + 'a list" where
  "collect [] = Inr []"
| "collect (x # xs) = seq x (\<lambda>y. seq (collect xs) (\<lambda>ys. Inr (y # ys)))"

definition sample_point_of :: "row \<times> nat \<Rightarrow> sample_point" where
  "sample_point_of p =
     \<lparr> point_id = idx (fst p), point_nombre_comercial = nombre_comercial (fst p),
       point_principio_activo = principio_activo (fst p), point_fabricante = fabricante (fst p),
       point_precio_por_tableta = precio_por_tableta (fst p), point_cluster = snd p \<rparr>"

text \<open>
  The first half of \<^verbatim>\<open>get_clustering\<close> after the call of \<^verbatim>\<open>filter_data\<close>, on
  the view that call returned: scaling, clustering, and the assignment of the labels to
  the column \<^verbatim>\<open>'cluster'\<close> of the view.
\<close>

definition label_view :: "kmeans_algorithm \<Rightarrow> dataframe \<Rightarrow> int \<Rightarrow> error + (scaler \<times> kmeans_model \<times> (row \<times> nat) list)" where
  "label_view km filtered_df n_clusters =
     seq (price_column filtered_df) (\<lambda>X.
     seq (fit_transform X) (\<lambda>(sc, X_scaled).
     seq (fit_predict km n_clusters X_scaled) (\<lambda>model.
     seq (set_column ''cluster'' (frame_rows filtered_df) (kmeans_labels model)) (\<lambda>labelled.
     Inr (sc, model, labelled)))))"

text \<open>The second half: the statistics of each cluster and the labelled sample.\<close>

definition clusters_of_labelled :: "(row \<times> nat) list \<Rightarrow> kmeans_model \<Rightarrow> scaler \<Rightarrow> int \<Rightarrow> error + clustering" where
  "clusters_of_labelled labelled model sc n_clusters =
     seq (collect (map (cluster_stat_of labelled model sc) [0..<nat n_clusters])) (\<lambda>stats.
     Inr \<lparr> cluster_stats = stats, data_sample = map sample_point_of (head 100 labelled) \<rparr>)"

definition get_clustering :: "kmeans_algorithm \<Rightarrow> dataframe \<Rightarrow> string option \<Rightarrow> int \<Rightarrow> error + clustering" where
  "get_clustering km df ai n_clusters =
     seq (filter_data df (default_args \<lparr> active_ingredient := ai \<rparr>)) (\<lambda>filtered_df.
     seq (label_view km filtered_df n_clusters) (\<lambda>(sc, model, labelled).
     clusters_of_labelled labelled model sc n_clusters))"

section \<open>The anomaly engine: \<^verbatim>\<open>get_anomalies\<close>\<close>

text \<open>
  \<^verbatim>\<open>IsolationForest(contamination=c, random_state=42).fit_predict(X)\<close>. The
  predictions (1 for an inlier, -1 for an outlier) are what scikit-learn's algorithm
  computes: a parameter \<open>forest\<close> of the model. Before computing, scikit-learn validates
  that a numeric \<^verbatim>\<open>contamination\<close> lies in (0, 0.5].
\<close>

type_synonym forest_algorithm = "real \<Rightarrow> real list \<Rightarrow> int list"

definition forest_fit_predict :: "forest_algorithm \<Rightarrow> real \<Rightarrow> real list \<Rightarrow> error + int list" where
  "forest_fit_predict forest contamination X =
     (if 0 < contamination \<and> contamination \<le> 1 / 2 then Inr (forest contamination X)
      else Inl (ValueError ''contamination''))"

text \<open>What scikit-learn guarantees of the predictions: one of 1 and -1 for each sample.\<close>

definition forest_contract :: "forest_algorithm \<Rightarrow> bool" where
  "forest_contract forest =
     (\<forall>c X. length (forest c X) = length X \<and> (\<forall>p\<in>set (forest c X). p = 1 \<or> p = - 1))"

text \<open>
  \<^verbatim>\<open>filtered_df['anomaly'].map({1: 0, -1: 1})\<close>: a value that is not a key of the
  dictionary becomes NaN. \<^verbatim>\<open>bool(x)\<close> of a float is false for 0 only.
\<close>

definition map_anomaly :: "int \<Rightarrow> pyfloat" where
  "map_anomaly p = (if p = 1 then Some 0 else if p = - 1 then Some 1 else None)"

definition py_bool :: "pyfloat \<Rightarrow> bool" where
  "py_bool x = (x \<noteq> Some 0)"

record anomaly_record =
  anomaly_id :: int
  anomaly_nombre_comercial :: cell
  anomaly_principio_activo :: cell
  anomaly_fabricante :: cell
  anomaly_precio_por_tableta :: real
  is_anomaly :: bool

definition anomaly_record_of :: "row \<times> pyfloat \<Rightarrow> anomaly_record" where
  "anomaly_record_of p =
     \<lparr> anomaly_id = idx (fst p), anomaly_nombre_comercial = nombre_comercial (fst p),
       anomaly_principio_activo = principio_activo (fst p),
       anomaly_fabricante = fabricante (fst p),
       anomaly_precio_por_tableta = precio_por_tableta (fst p),
       is_anomaly = py_bool (snd p) \<rparr>"

record anomaly_stats =
  normal_count :: nat
  anomaly_count :: nat
  normal_avg_price :: pyfloat
  anomaly_avg_price :: pyfloat
  price_threshold_upper :: pyfloat
  price_threshold_lower :: pyfloat

record anomalies =
  anomalies_stats :: anomaly_stats
  anomaly_data :: "anomaly_record list"

text \<open>Float arithmetic with NaN: \<open>mean + 2 * std\<close> and \<open>mean - 2 * std\<close>.\<close>

definition plus_two :: "pyfloat \<Rightarrow> pyfloat \<Rightarrow> pyfloat" where
  "plus_two m s = (case (m, s) of (Some a, Some b) \<Rightarrow> Some (a + 2 * b) | _ \<Rightarrow> None)"

definition minus_two :: "pyfloat \<Rightarrow> pyfloat \<Rightarrow> pyfloat" where
  "minus_two m s = (case (m, s) of (Some a, Some b) \<Rightarrow> Some (a - 2 * b) | _ \<Rightarrow> None)"

text \<open>
  The second half of \<^verbatim>\<open>get_anomalies\<close>, on the view with its column \<^verbatim>\<open>'anomaly'\<close>:
  the anomalous rows by descending price, and the statistics of the normal and of the
  anomalous prices.
\<close>

definition anomalies_of_labelled :: "(row \<times> pyfloat) list \<Rightarrow> anomalies" where
  "anomalies_of_labelled labelled =
     (let anomalous = sort_reverse (\<lambda>p. precio_por_tableta (fst p))
                        (filter (\<lambda>(r, a). a = Some 1) labelled);
          normal_prices = map (\<lambda>p. precio_por_tableta (fst p))
                            (filter (\<lambda>(r, a). a = Some 0) labelled);
          anomaly_prices = map (\<lambda>p. precio_por_tableta (fst p))
                             (filter (\<lambda>(r, a). a = Some 1) labelled)
      in \<lparr> anomalies_stats =
             \<lparr> normal_count = length normal_prices,
               anomaly_count = length anomaly_prices,
               normal_avg_price =
                 (if 0 < length normal_prices then series_mean normal_prices else Some 0),
               anomaly_avg_price =
                 (if 0 < length anomaly_prices then series_mean anomaly_prices else Some 0),
               price_threshold_upper =
                 (if 0 < length normal_prices
                  then plus_two (series_mean normal_prices) (series_std normal_prices)
                  else Some 0),
               price_threshold_lower =
                 (if 0 < length normal_prices
                  then minus_two (series_mean normal_prices) (series_std normal_prices)
                  else Some 0) \<rparr>,
           anomaly_data = map anomaly_record_of anomalous \<rparr>)"

text \<open>
  The body of \<^verbatim>\<open>get_anomalies\<close> after the call of \<^verbatim>\<open>filter_data\<close>, on the view that
  call returned. Beside the result it gives the values that the body has written into
  the column \<^verbatim>\<open>'anomaly'\<close> of the view.
\<close>

definition anomalies_of_view :: "forest_algorithm \<Rightarrow> dataframe \<Rightarrow> real \<Rightarrow> error + (pyfloat list \<times> anomalies)" where
  "anomalies_of_view forest filtered_df contamination =
     seq (price_column filtered_df) (\<lambda>X.
     seq (fit_transform X) (\<lambda>(sc, X_scaled).
     seq (forest_fit_predict forest contamination X_scaled) (\<lambda>predictions.
     seq (set_column ''anomaly'' (frame_rows filtered_df) (map map_anomaly predictions)) (\<lambda>labelled.
     Inr (map map_anomaly predictions, anomalies_of_labelled labelled)))))"

definition get_anomalies :: "forest_algorithm \<Rightarrow> dataframe \<Rightarrow> string option \<Rightarrow> real \<Rightarrow> error + anomalies" where
  "get_anomalies forest df ai contamination =
     seq (filter_data df (default_args \<lparr> active_ingredient := ai \<rparr>)) (\<lambda>filtered_df.
     seq (anomalies_of_view forest filtered_df contamination) (\<lambda>(labels, result). Inr result))"

section \<open>Sample data\<close>

text \<open>Rows used to evaluate the definitions on concrete input.\<close>

definition sample_row :: "int \<Rightarrow> string \<Rightarrow> string \<Rightarrow> real \<Rightarrow> row" where
  "sample_row i ingredient maker price =
     \<lparr> idx = i, nombre_comercial = Some ''Marca'', principio_activo = Some ingredient,
       fabricante = Some maker, concentracion = Some ''500 mg'', canal = Some ''Comercial'',
       unidad_de_dispensacion = Some ''Tableta'', precio_por_tableta = price \<rparr>"

definition sample_rows :: "row list" where
  "sample_rows =
     [sample_row 0 ''Acetaminofen'' ''Genfar'' 30,
      sample_row 1 ''Ibuprofeno'' ''Genfar'' 10,
      sample_row 2 ''Acetaminofen'' ''Bayer'' 20]"

text \<open>
  Stand-ins for the two learning algorithms, to run the definitions: all samples in
  cluster 0; the first sample an outlier; no sample an outlier.
\<close>

definition one_cluster :: kmeans_algorithm where
  "one_cluster k X = \<lparr> kmeans_labels = map (\<lambda>x. 0) X, kmeans_centers = replicate k 0 \<rparr>"

definition flag_first :: forest_algorithm where
  "flag_first c X = (case X of [] \<Rightarrow> [] | x # xs \<Rightarrow> - 1 # map (\<lambda>y. 1) xs)"

definition all_inliers :: forest_algorithm where
  "all_inliers c X = map (\<lambda>x. 1) X"

definition boxplot_rows :: "row list" where
  "boxplot_rows =
     [sample_row 0 ''Acetaminofen'' ''Bayer'' 1, sample_row 1 ''Acetaminofen'' ''Bayer'' 2,
      sample_row 2 ''Acetaminofen'' ''Bayer'' 3, sample_row 3 ''Acetaminofen'' ''Bayer'' 4,
      sample_row 4 ''Acetaminofen'' ''Bayer'' 5, sample_row 5 ''Acetaminofen'' ''Genfar'' 6,
      sample_row 6 ''Acetaminofen'' ''Genfar'' 7, sample_row 7 ''Acetaminofen'' ''Genfar'' 8,
      sample_row 8 ''Acetaminofen'' ''Genfar'' 9, sample_row 9 ''Acetaminofen'' ''Genfar'' 10,
      sample_row 10 ''Acetaminofen'' ''MK'' 11, sample_row 11 ''Acetaminofen'' ''MK'' 12]"

section \<open>The endpoints of \<^verbatim>\<open>app.py\<close>\<close>

text \<open>
  Each endpoint answers with a JSON object whose status is \<^verbatim>\<open>'error'\<close> (with a
  message and an HTTP status code) or \<^verbatim>\<open>'success'\<close> (with a payload). An exception
  that the endpoint does not catch leaves it: that is \<open>Inl\<close>. The parameters are the
  query arguments as \<^verbatim>\<open>request.args.get\<close> has parsed them.
\<close>

datatype 'a response = ErrorResponse nat string | Success 'a

text \<open>
  The answer of every endpoint when \<^verbatim>\<open>data_service.df is None or data_service.df.empty\<close>
  (the attribute is never \<^verbatim>\<open>None\<close>: \<^verbatim>\<open>load_data\<close> always returns a frame).
\<close>

definition no_data :: "'a response" where
  "no_data = ErrorResponse 500 ''No data available''"

definition get_data :: "dataframe \<Rightarrow> filter_args \<Rightarrow> error + (nat \<times> row list) response" where
  "get_data df a =
     (if empty_df df then Inr no_data
      else seq (filter_data df a) (\<lambda>filtered_df.
           Inr (Success (length (frame_rows filtered_df), frame_rows filtered_df))))"

definition get_summary :: "dataframe \<Rightarrow> string option \<Rightarrow> string option \<Rightarrow> error + summary response" where
  "get_summary df ai m =
     (if empty_df df then Inr no_data
      else seq (get_summary_stats df ai m) (\<lambda>stats. Inr (Success stats)))"

definition get_histogram :: "dataframe \<Rightarrow> string option \<Rightarrow> string option \<Rightarrow> int \<Rightarrow> error + bin list response" where
  "get_histogram df ai m bins =
     (if empty_df df then Inr no_data
      else seq (get_histogram_data df ai m bins) (\<lambda>histogram_data. Inr (Success histogram_data)))"

definition get_boxplot :: "dataframe \<Rightarrow> string \<Rightarrow> string option \<Rightarrow> int \<Rightarrow> error + box list response" where
  "get_boxplot df group_by ai lmt =
     (if empty_df df then Inr no_data
      else seq (get_boxplot_data df group_by ai lmt) (\<lambda>boxplot_data.
           case boxplot_data of
             ColumnNotFound c \<Rightarrow> Inr (ErrorResponse 400 (''Column '' @ c @ '' not found''))
           | Boxes bs \<Rightarrow> Inr (Success bs)))"

definition get_clusters :: "kmeans_algorithm \<Rightarrow> dataframe \<Rightarrow> string option \<Rightarrow> int \<Rightarrow> error + clustering response" where
  "get_clusters km df ai n_clusters =
     (if empty_df df then Inr no_data
      else seq (get_clustering km df ai n_clusters) (\<lambda>clustering_results.
           Inr (Success clustering_results)))"

text \<open>The endpoint \<^verbatim>\<open>get_anomalies\<close> of \<^verbatim>\<open>app.py\<close>, which calls the method of that name.\<close>

definition get_anomalies_endpoint :: "forest_algorithm \<Rightarrow> dataframe \<Rightarrow> string option \<Rightarrow> real \<Rightarrow> error + anomalies response" where
  "get_anomalies_endpoint forest df ai contamination =
     (if empty_df df then Inr no_data
      else seq (get_anomalies forest df ai contamination) (\<lambda>anomaly_results.
           Inr (Success anomaly_results)))"

section \<open>Objects and references\<close>

text \<open>
  To say which DataFrame an operation reads, creates and writes, the DataFrame objects
  live in a store: the list of the objects allocated so far, a reference being a
  position in it. An object is a frame together with the columns added to it by
  assignment. The service object holds the reference \<^verbatim>\<open>self.df\<close>; no method assigns
  to that attribute after the constructor.
\<close>

type_synonym ref = nat

datatype column_values = Labels "nat list" | Floats "pyfloat list"

record obj =
  obj_frame :: dataframe
  obj_added :: "(string \<times> column_values) list"

type_synonym store = "obj list"

record data_service =
  df_ref :: ref

type_synonym 'a action = "store \<Rightarrow> (error + 'a) \<times> store"

definition then_do :: "'a action \<Rightarrow> ('a \<Rightarrow> 'b action) \<Rightarrow> 'b action" where
  "then_do m f s = (case m s of (Inl e, s') \<Rightarrow> (Inl e, s') | (Inr x, s') \<Rightarrow> f x s')"

definition frame_at :: "store \<Rightarrow> ref \<Rightarrow> dataframe" where
  "frame_at s r = obj_frame (s ! r)"

text \<open>A pandas operation that returns a new DataFrame: a new object in the store.\<close>

definition new_frame :: "dataframe \<Rightarrow> ref action" where
  "new_frame d s = (Inr (length s), s @ [\<lparr> obj_frame = d, obj_added = [] \<rparr>])"

text \<open>\<^verbatim>\<open>x = f(x)\<close> for an operation \<open>f\<close> that returns a new DataFrame or raises.\<close>

definition derive :: "(dataframe \<Rightarrow> error + dataframe) \<Rightarrow> ref \<Rightarrow> ref action" where
  "derive f r s = (case f (frame_at s r) of Inl e \<Rightarrow> (Inl e, s) | Inr d \<Rightarrow> new_frame d s)"

text \<open>\<^verbatim>\<open>x[c] = values\<close>: the one operation of the service that writes into an object.\<close>

definition write_column :: "ref \<Rightarrow> string \<Rightarrow> column_values \<Rightarrow> store \<Rightarrow> store" where
  "write_column r c vals s = s[r := (s ! r)\<lparr> obj_added := (c, vals) # obj_added (s ! r) \<rparr>]"

text \<open>
  \<^verbatim>\<open>if c: x = f(x)\<close>, where the condition may look at the frame: under the condition
  the variable is bound to the new frame that \<open>f\<close> returns, otherwise it keeps its
  reference.
\<close>

definition rebind_if :: "(dataframe \<Rightarrow> bool) \<Rightarrow> (dataframe \<Rightarrow> error + dataframe) \<Rightarrow> ref \<Rightarrow> ref action" where
  "rebind_if c f r s = (if c (frame_at s r) then derive f r s else (Inr r, s))"

text \<open>
  The conditional assignments to \<^verbatim>\<open>filtered_df\<close> in the body of \<^verbatim>\<open>filter_data\<close>,
  in their order: each with its condition and the pandas operation it applies.
\<close>

definition filter_steps :: "filter_args \<Rightarrow> ((dataframe \<Rightarrow> bool) \<times> (dataframe \<Rightarrow> error + dataframe)) list" where
  "filter_steps a =
     [(\<lambda>d. truthy (active_ingredient a),
         where_eq ''principio_activo'' principio_activo (active_ingredient a)),
      (\<lambda>d. truthy (manufacturer a), where_eq ''fabricante'' fabricante (manufacturer a)),
      (\<lambda>d. truthy (concentration a), where_eq ''concentracion'' concentracion (concentration a)),
      (\<lambda>d. truthy (channel a), where_eq ''canal'' canal (channel a)),
      (\<lambda>d. truthy (dispensing_unit a),
         where_eq ''unidad_de_dispensacion'' unidad_de_dispensacion (dispensing_unit a)),
      (\<lambda>d. min_price a \<noteq> None, where_ge (min_price a)),
      (\<lambda>d. max_price a \<noteq> None, where_le (max_price a)),
      (\<lambda>d. sort_by a \<in> set (columns d), \<lambda>d. Inr (apply_sort (sort_by a) (sort_order a) d)),
      (\<lambda>d. limit a \<noteq> None \<and> limit a \<noteq> Some 0, \<lambda>d. Inr (apply_limit (limit a) d))]"

text \<open>
  \<^verbatim>\<open>filter_data\<close> on objects: \<^verbatim>\<open>filtered_df = self.df.copy()\<close> allocates the copy,
  then the conditional assignments run in order. The result is the reference held by
  \<^verbatim>\<open>filtered_df\<close> at the end.
\<close>

definition filter_data_obj :: "data_service \<Rightarrow> filter_args \<Rightarrow> ref action" where
  "filter_data_obj self a =
     foldl (\<lambda>m (c, f). then_do m (rebind_if c f))
       (\<lambda>s. new_frame (frame_at s (df_ref self)) s) (filter_steps a)"

text \<open>
  The other methods on objects: the call of \<^verbatim>\<open>filter_data\<close>, then the body on the
  frame that \<^verbatim>\<open>filtered_df\<close> refers to. Clustering and anomaly detection assign a
  column to that frame (of the two assignments to \<^verbatim>\<open>'anomaly'\<close> the second replaces
  the values of the first; the column holds the mapped values).
\<close>

definition get_summary_stats_obj :: "data_service \<Rightarrow> string option \<Rightarrow> string option \<Rightarrow> summary action" where
  "get_summary_stats_obj self ai m =
     then_do (filter_data_obj self (default_args \<lparr> active_ingredient := ai, manufacturer := m \<rparr>))
       (\<lambda>r s. (summary_of_view (frame_at s r) ai m, s))"

definition get_histogram_data_obj :: "data_service \<Rightarrow> string option \<Rightarrow> string option \<Rightarrow> int \<Rightarrow> bin list action" where
  "get_histogram_data_obj self ai m bins =
     then_do (filter_data_obj self (default_args \<lparr> active_ingredient := ai, manufacturer := m \<rparr>))
       (\<lambda>r s. (histogram_of_view (frame_at s r) bins, s))"

definition get_boxplot_data_obj :: "data_service \<Rightarrow> string \<Rightarrow> string option \<Rightarrow> int \<Rightarrow> boxplot_result action" where
  "get_boxplot_data_obj self group_by ai lmt =
     then_do (filter_data_obj self (default_args \<lparr> active_ingredient := ai \<rparr>))
       (\<lambda>r s. (boxplot_of_view (frame_at s r) group_by lmt, s))"

definition get_clustering_obj :: "kmeans_algorithm \<Rightarrow> data_service \<Rightarrow> string option \<Rightarrow> int \<Rightarrow> clustering action" where
  "get_clustering_obj km self ai n_clusters =
     then_do (filter_data_obj self (default_args \<lparr> active_ingredient := ai \<rparr>))
       (\<lambda>r s. case label_view km (frame_at s r) n_clusters of
                 Inl e \<Rightarrow> (Inl e, s)
               | Inr (sc, model, labelled) \<Rightarrow>
                   (clusters_of_labelled labelled model sc n_clusters,
                    write_column r ''cluster'' (Labels (kmeans_labels model)) s))"

definition get_anomalies_obj :: "forest_algorithm \<Rightarrow> data_service \<Rightarrow> string option \<Rightarrow> real \<Rightarrow> anomalies action" where
  "get_anomalies_obj forest self ai contamination =
     then_do (filter_data_obj self (default_args \<lparr> active_ingredient := ai \<rparr>))
       (\<lambda>r s. case anomalies_of_view forest (frame_at s r) contamination of
                 Inl e \<Rightarrow> (Inl e, s)
               | Inr (labels, result) \<Rightarrow> (Inr result, write_column r ''anomaly'' (Floats labels) s))"

text \<open>
  What an operation on objects has to do for a value-level function \<open>v\<close> of the
  dataset: leave every object of the store as it was, and, if it returns a reference,
  return one to an object that did not exist before, whose frame is the value of \<open>v\<close>.
\<close>

definition tracks :: "store \<Rightarrow> (error + dataframe) \<Rightarrow> (error + ref) \<times> store \<Rightarrow> bool" where
  "tracks base v out =
     (take (length base) (snd out) = base \<and>
      (case fst out of
         Inl e \<Rightarrow> v = Inl e
       | Inr r \<Rightarrow> length base \<le> r \<and> r < length (snd out) \<and> v = Inr (frame_at (snd out) r)))"

text \<open>A store of one object, the dataset, and the service that refers to it.\<close>

definition sample_store :: store where
  "sample_store = [\<lparr> obj_frame = Table sample_rows, obj_added = [] \<rparr>]"

definition sample_service :: data_service where
  "sample_service = \<lparr> df_ref = 0 \<rparr>"

section \<open>Properties of the filter engine\<close>

lemma seq_Inr_iff: "seq m f = Inr y \<longleftrightarrow> (\<exists>x. m = Inr x \<and> f x = Inr y)"
  by (cases m) (simp_all add: seq_def)

lemma where_eq_rows:
  assumes "where_eq c col p df = Inr d"
  shows "set (frame_rows d) \<subseteq> set (frame_rows df)"
    and "\<forall>r\<in>set (frame_rows d). truthy p \<longrightarrow> col r = p"
  using assms by (auto simp: where_eq_def split: if_splits dataframe.splits)

lemma where_ge_rows:
  assumes "where_ge b df = Inr d"
  shows "set (frame_rows d) \<subseteq> set (frame_rows df)"
    and "\<forall>r\<in>set (frame_rows d). \<forall>lo. b = Some lo \<longrightarrow> lo \<le> precio_por_tableta r"
  using assms by (auto simp: where_ge_def split: option.splits dataframe.splits)

lemma where_le_rows:
  assumes "where_le b df = Inr d"
  shows "set (frame_rows d) \<subseteq> set (frame_rows df)"
    and "\<forall>r\<in>set (frame_rows d). \<forall>hi. b = Some hi \<longrightarrow> precio_por_tableta r \<le> hi"
  using assms by (auto simp: where_le_def split: option.splits dataframe.splits)

lemma set_sort_rows [simp]: "set (sort_rows key asc rs) = set rs"
  by (simp add: sort_rows_def)

lemma length_sort_rows [simp]: "length (sort_rows key asc rs) = length rs"
  by (simp add: sort_rows_def)

lemma set_sort_values [simp]: "set (sort_values c asc rs) = set rs"
  by (auto simp: sort_values_def sort_text_def split: option.splits)

lemma length_sort_values [simp]: "length (sort_values c asc rs) = length rs"
proof -
  have "length (filter (\<lambda>r. col r \<noteq> None) rs) + length (filter (\<lambda>r. col r = None) rs) = length rs"
    for col :: "row \<Rightarrow> cell"
    using sum_length_filter_compl [of "\<lambda>r. col r \<noteq> None" rs] by simp
  then show ?thesis
    by (simp add: sort_values_def sort_text_def split: option.splits)
qed

lemma set_apply_sort [simp]: "set (frame_rows (apply_sort by ord df)) = set (frame_rows df)"
  by (simp add: apply_sort_def)

lemma set_head_subset: "set (head n xs) \<subseteq> set xs"
  by (auto simp: head_def dest: in_set_takeD)

lemma length_head_pos: "0 < n \<Longrightarrow> length (head n xs) \<le> nat n"
  by (simp add: head_def)

lemma set_apply_limit: "set (frame_rows (apply_limit l df)) \<subseteq> set (frame_rows df)"
  by (cases df) (auto simp: apply_limit_def split: option.splits dest: subsetD [OF set_head_subset])

lemma length_apply_limit:
  "0 < n \<Longrightarrow> length (frame_rows (apply_limit (Some n) df)) \<le> nat n"
  by (cases df) (simp_all add: apply_limit_def length_head_pos)


lemma where_eq_Table: "\<exists>vs. where_eq c col p (Table rs) = Inr (Table vs)"
  by (simp add: where_eq_def)

lemma where_ge_Table: "\<exists>vs. where_ge b (Table rs) = Inr (Table vs)"
  by (simp add: where_ge_def split: option.splits)

lemma where_le_Table: "\<exists>vs. where_le b (Table rs) = Inr (Table vs)"
  by (simp add: where_le_def split: option.splits)

lemma apply_sort_Table: "\<exists>vs. apply_sort by ord (Table rs) = Table vs"
  by (simp add: apply_sort_def)

lemma apply_limit_Table: "\<exists>vs. apply_limit l (Table rs) = Table vs"
  by (simp add: apply_limit_def split: option.splits)

lemma filter_data_Table: "\<exists>vs. filter_data (Table rs) a = Inr (Table vs)"
proof -
  obtain r1 where s1: "where_eq ''principio_activo'' principio_activo (active_ingredient a) (Table rs) = Inr (Table r1)"
    using where_eq_Table by blast
  obtain r2 where s2: "where_eq ''fabricante'' fabricante (manufacturer a) (Table r1) = Inr (Table r2)"
    using where_eq_Table by blast
  obtain r3 where s3: "where_eq ''concentracion'' concentracion (concentration a) (Table r2) = Inr (Table r3)"
    using where_eq_Table by blast
  obtain r4 where s4: "where_eq ''canal'' canal (channel a) (Table r3) = Inr (Table r4)"
    using where_eq_Table by blast
  obtain r5 where s5: "where_eq ''unidad_de_dispensacion'' unidad_de_dispensacion (dispensing_unit a) (Table r4) = Inr (Table r5)"
    using where_eq_Table by blast
  obtain r6 where s6: "where_ge (min_price a) (Table r5) = Inr (Table r6)"
    using where_ge_Table by blast
  obtain r7 where s7: "where_le (max_price a) (Table r6) = Inr (Table r7)"
    using where_le_Table by blast
  obtain r8 where s8: "apply_sort (sort_by a) (sort_order a) (Table r7) = Table r8"
    using apply_sort_Table by blast
  obtain r9 where s9: "apply_limit (limit a) (Table r8) = Table r9"
    using apply_limit_Table by blast
  show ?thesis
    by (simp add: filter_data_def seq_def s1 s2 s3 s4 s5 s6 s7 s8 s9)
qed

lemma filter_data_Inr:
  assumes "filter_data df a = Inr v"
  obtains d1 d2 d3 d4 d5 d6 d7 where
    "where_eq ''principio_activo'' principio_activo (active_ingredient a) df = Inr d1" and
    "where_eq ''fabricante'' fabricante (manufacturer a) d1 = Inr d2" and
    "where_eq ''concentracion'' concentracion (concentration a) d2 = Inr d3" and
    "where_eq ''canal'' canal (channel a) d3 = Inr d4" and
    "where_eq ''unidad_de_dispensacion'' unidad_de_dispensacion (dispensing_unit a) d4 = Inr d5" and
    "where_ge (min_price a) d5 = Inr d6" and
    "where_le (max_price a) d6 = Inr d7" and
    "v = apply_limit (limit a) (apply_sort (sort_by a) (sort_order a) d7)"
  using assms unfolding filter_data_def seq_Inr_iff by blast

lemma filter_data_steps:
  assumes "filter_data df a = Inr v"
  shows "set (frame_rows v) \<subseteq> set (frame_rows df) \<and> (\<forall>r\<in>set (frame_rows v). passes a r)"
proof -
  from assms obtain d1 d2 d3 d4 d5 d6 d7 where
    s1: "where_eq ''principio_activo'' principio_activo (active_ingredient a) df = Inr d1" and
    s2: "where_eq ''fabricante'' fabricante (manufacturer a) d1 = Inr d2" and
    s3: "where_eq ''concentracion'' concentracion (concentration a) d2 = Inr d3" and
    s4: "where_eq ''canal'' canal (channel a) d3 = Inr d4" and
    s5: "where_eq ''unidad_de_dispensacion'' unidad_de_dispensacion (dispensing_unit a) d4 = Inr d5" and
    s6: "where_ge (min_price a) d5 = Inr d6" and
    s7: "where_le (max_price a) d6 = Inr d7" and
    v: "v = apply_limit (limit a) (apply_sort (sort_by a) (sort_order a) d7)"
    by (rule filter_data_Inr)
  have sub7: "set (frame_rows v) \<subseteq> set (frame_rows d7)"
    unfolding v using set_apply_limit [of "limit a" "apply_sort (sort_by a) (sort_order a) d7"]
    by simp
  note sub = where_eq_rows(1) [OF s1] where_eq_rows(1) [OF s2] where_eq_rows(1) [OF s3]
    where_eq_rows(1) [OF s4] where_eq_rows(1) [OF s5] where_ge_rows(1) [OF s6]
    where_le_rows(1) [OF s7] sub7
  have "passes a r" if "r \<in> set (frame_rows v)" for r
  proof -
    from that sub have in7: "r \<in> set (frame_rows d7)" and in6: "r \<in> set (frame_rows d6)"
      and in5: "r \<in> set (frame_rows d5)" and in4: "r \<in> set (frame_rows d4)"
      and in3: "r \<in> set (frame_rows d3)" and in2: "r \<in> set (frame_rows d2)"
      and in1: "r \<in> set (frame_rows d1)"
      by blast+
    show ?thesis
      unfolding passes_def
      using where_eq_rows(2) [OF s1] where_eq_rows(2) [OF s2] where_eq_rows(2) [OF s3]
        where_eq_rows(2) [OF s4] where_eq_rows(2) [OF s5] where_ge_rows(2) [OF s6]
        where_le_rows(2) [OF s7] in1 in2 in3 in4 in5 in6 in7
      by blast
  qed
  moreover from sub have "set (frame_rows v) \<subseteq> set (frame_rows df)"
    by blast
  ultimately show ?thesis by blast
qed

lemma filter_data_limit:
  assumes "filter_data df a = Inr v" and "limit a = Some n" and "0 < n"
  shows "int (len_df v) \<le> n"
proof -
  from assms(1) obtain d7 where
    "v = apply_limit (limit a) (apply_sort (sort_by a) (sort_order a) d7)"
    by (rule filter_data_Inr)
  with assms(2,3) show ?thesis
    using length_apply_limit [of n "apply_sort (sort_by a) (sort_order a) d7"]
    by (simp add: len_df_def)
qed

section \<open>Claims about the filter engine\<close>

text \<open>
  C1 (as amended). Whenever \<open>filter_data\<close> returns a view, every record of the view is
  a record of the dataset, it equals exactly each equality value that was supplied as a
  non-empty string, and its price lies within the supplied bounds, both inclusive; and
  when the requested limit is positive, the view has at most that many records. On a
  dataset that has its columns \<open>filter_data\<close> always returns a view.
\<close>

theorem filter_data_view:
  "(filter_data df a = Inr v \<longrightarrow>
      set (frame_rows v) \<subseteq> set (frame_rows df) \<and>
      (\<forall>r\<in>set (frame_rows v). passes a r) \<and>
      (\<forall>n. limit a = Some n \<and> 0 < n \<longrightarrow> int (len_df v) \<le> n)) \<and>
   (\<exists>vs. filter_data (Table rs) a = Inr (Table vs))"
  using filter_data_steps [of df a v] filter_data_limit [of df a v] filter_data_Table [of rs a]
  by blast

theorem filter_data_view_witness:
  "filter_data (Table sample_rows)
     (default_args \<lparr> active_ingredient := Some ''Acetaminofen'', min_price := Some 20,
        max_price := Some 30, limit := Some 1 \<rparr>)
     = Inr (Table [sample_row 2 ''Acetaminofen'' ''Bayer'' 20]) \<and>
   passes (default_args \<lparr> active_ingredient := Some ''Acetaminofen'', min_price := Some 20,
        max_price := Some 30, limit := Some 1 \<rparr>) (sample_row 2 ''Acetaminofen'' ''Bayer'' 20) \<and>
   int (len_df (Table [sample_row 2 ''Acetaminofen'' ''Bayer'' 20])) \<le> 1"
proof -
  let ?a = "default_args \<lparr> active_ingredient := Some ''Acetaminofen'', min_price := Some 20,
        max_price := Some 30, limit := Some 1 \<rparr>"
  let ?r = "sample_row 2 ''Acetaminofen'' ''Bayer'' 20"
  have run: "filter_data (Table sample_rows) ?a = Inr (Table [?r])"
    by (simp add: filter_data_def seq_def where_eq_def where_ge_def where_le_def truthy_def
        apply_sort_def apply_limit_def head_def sort_values_def text_column_def sort_rows_def
        lower_def lower_char_def column_names_def default_args_def sample_rows_def sample_row_def)
  from filter_data_view [of "Table sample_rows" ?a "Table [?r]" sample_rows] run
  have "passes ?a ?r" and "int (len_df (Table [?r])) \<le> 1"
    by (simp_all add: default_args_def)
  with run show ?thesis by blast
qed

text \<open>
  C1 as stated fails where a parameter is supplied but false in Python: with the
  equality value \<open>''''\<close> and the limit 0 nothing is filtered and nothing is cut, so the
  view holds records whose field differs from the supplied value, and more records
  than the limit.
\<close>

theorem filter_data_counterexample:
  "filter_data (Table sample_rows)
     (default_args \<lparr> active_ingredient := Some [], limit := Some 0 \<rparr>)
     = Inr (Table [sample_row 1 ''Ibuprofeno'' ''Genfar'' 10,
                   sample_row 2 ''Acetaminofen'' ''Bayer'' 20,
                   sample_row 0 ''Acetaminofen'' ''Genfar'' 30]) \<and>
   principio_activo (sample_row 1 ''Ibuprofeno'' ''Genfar'' 10) \<noteq> Some [] \<and>
   \<not> int (len_df (Table [sample_row 1 ''Ibuprofeno'' ''Genfar'' 10,
                   sample_row 2 ''Acetaminofen'' ''Bayer'' 20,
                   sample_row 0 ''Acetaminofen'' ''Genfar'' 30])) \<le> 0"
  by (simp add: filter_data_def seq_def where_eq_def where_ge_def where_le_def truthy_def
      apply_sort_def apply_limit_def head_def sort_values_def text_column_def sort_rows_def
      lower_def lower_char_def column_names_def default_args_def sample_rows_def sample_row_def
      len_df_def)

section \<open>Claims about the aggregation engine\<close>

lemma get_summary_stats_Inr:
  assumes "get_summary_stats df ai m = Inr s"
  shows "(stats_manufacturers s \<noteq> None \<longleftrightarrow> truthy ai) \<and>
         (stats_active_ingredients s \<noteq> None \<longleftrightarrow> truthy m)"
proof -
  from assms obtain v prices where
    "s = \<lparr> stats_count = len_df v,
           stats_price_stats =
             \<lparr> stat_min = series_min prices, stat_max = series_max prices,
               stat_mean = series_mean prices, stat_median = series_median prices,
               stat_std = series_std prices \<rparr>,
           stats_manufacturers =
             (if truthy ai then Some (breakdown fabricante (frame_rows v)) else None),
           stats_active_ingredients =
             (if truthy m then Some (breakdown principio_activo (frame_rows v)) else None) \<rparr>"
    unfolding get_summary_stats_def summary_of_view_def seq_Inr_iff by auto
  then show ?thesis by simp
qed

lemma get_summary_stats_Table: "\<exists>s. get_summary_stats (Table rs) ai m = Inr s"
proof -
  obtain vs where "filter_data (Table rs) (default_args \<lparr> active_ingredient := ai, manufacturer := m \<rparr>)
      = Inr (Table vs)"
    using filter_data_Table by blast
  then show ?thesis
    by (simp add: get_summary_stats_def summary_of_view_def seq_def price_column_def)
qed

text \<open>
  C4 (as amended). In the result of the summary operation the breakdown by manufacturer
  is present exactly when an active-ingredient filter was supplied (a non-empty string),
  and the breakdown by active ingredient exactly when a manufacturer filter was
  supplied: one axis for one filter, both axes when both filters are supplied. On a
  dataset that has its columns the operation returns a result.
\<close>

theorem get_summary_stats_breakdowns:
  "(get_summary_stats df ai m = Inr s \<longrightarrow>
      (stats_manufacturers s \<noteq> None \<longleftrightarrow> truthy ai) \<and>
      (stats_active_ingredients s \<noteq> None \<longleftrightarrow> truthy m)) \<and>
   (\<exists>s'. get_summary_stats (Table rs) ai m = Inr s')"
  using get_summary_stats_Inr [of df ai m s] get_summary_stats_Table [of rs ai m] by blast

lemma summary_both_filters:
  "get_summary_stats (Table sample_rows) (Some ''Acetaminofen'') (Some ''Genfar'') =
     Inr \<lparr> stats_count = 1,
           stats_price_stats =
             \<lparr> stat_min = Some 30, stat_max = Some 30, stat_mean = Some 30,
               stat_median = Some 30, stat_std = None \<rparr>,
           stats_manufacturers =
             Some [\<lparr> group_key = ''Genfar'', group_count = 1, group_min_price = Some 30,
                     group_max_price = Some 30, group_avg_price = Some 30 \<rparr>],
           stats_active_ingredients =
             Some [\<lparr> group_key = ''Acetaminofen'', group_count = 1, group_min_price = Some 30,
                     group_max_price = Some 30, group_avg_price = Some 30 \<rparr>] \<rparr>"
  by (simp add: get_summary_stats_def summary_of_view_def filter_data_def seq_def where_eq_def where_ge_def
      where_le_def truthy_def apply_sort_def apply_limit_def head_def sort_values_def
      text_column_def sort_rows_def lower_def lower_char_def column_names_def default_args_def
      sample_rows_def sample_row_def len_df_def price_column_def series_min_def series_max_def
      series_mean_def series_median_def series_std_def breakdown_def groupby_def
      List.map_filter_def)

theorem get_summary_stats_breakdowns_witness:
  "get_summary_stats (Table sample_rows) (Some ''Acetaminofen'') None =
     Inr \<lparr> stats_count = 2,
           stats_price_stats =
             \<lparr> stat_min = Some 20, stat_max = Some 30, stat_mean = Some 25,
               stat_median = Some 25, stat_std = Some (sqrt 50) \<rparr>,
           stats_manufacturers =
             Some [\<lparr> group_key = ''Bayer'', group_count = 1, group_min_price = Some 20,
                     group_max_price = Some 20, group_avg_price = Some 20 \<rparr>,
                   \<lparr> group_key = ''Genfar'', group_count = 1, group_min_price = Some 30,
                     group_max_price = Some 30, group_avg_price = Some 30 \<rparr>],
           stats_active_ingredients = None \<rparr> \<and>
   truthy (Some ''Acetaminofen'') \<and> \<not> truthy None"
proof -
  have run: "get_summary_stats (Table sample_rows) (Some ''Acetaminofen'') None =
     Inr \<lparr> stats_count = 2,
           stats_price_stats =
             \<lparr> stat_min = Some 20, stat_max = Some 30, stat_mean = Some 25,
               stat_median = Some 25, stat_std = Some (sqrt 50) \<rparr>,
           stats_manufacturers =
             Some [\<lparr> group_key = ''Bayer'', group_count = 1, group_min_price = Some 20,
                     group_max_price = Some 20, group_avg_price = Some 20 \<rparr>,
                   \<lparr> group_key = ''Genfar'', group_count = 1, group_min_price = Some 30,
                     group_max_price = Some 30, group_avg_price = Some 30 \<rparr>],
           stats_active_ingredients = None \<rparr>" (is "_ = Inr ?s")
    by (simp add: get_summary_stats_def summary_of_view_def filter_data_def seq_def where_eq_def where_ge_def
        where_le_def truthy_def apply_sort_def apply_limit_def head_def sort_values_def
        text_column_def sort_rows_def lower_def lower_char_def column_names_def default_args_def
        sample_rows_def sample_row_def len_df_def price_column_def series_min_def series_max_def
        series_mean_def series_median_def series_std_def breakdown_def groupby_def
        List.map_filter_def power2_eq_square)
  from get_summary_stats_breakdowns [of "Table sample_rows" "Some ''Acetaminofen''" None ?s] run
  have "truthy (Some ''Acetaminofen'') \<and> \<not> truthy None"
    by simp
  with run show ?thesis by blast
qed

text \<open>
  C4 as stated fails: with both filters supplied the result holds both breakdowns.
\<close>

theorem get_summary_stats_counterexample:
  "map_sum id (\<lambda>s. (stats_manufacturers s, stats_active_ingredients s))
     (get_summary_stats (Table sample_rows) (Some ''Acetaminofen'') (Some ''Genfar'')) =
     Inr (Some [\<lparr> group_key = ''Genfar'', group_count = 1, group_min_price = Some 30,
                  group_max_price = Some 30, group_avg_price = Some 30 \<rparr>],
          Some [\<lparr> group_key = ''Acetaminofen'', group_count = 1, group_min_price = Some 30,
                  group_max_price = Some 30, group_avg_price = Some 30 \<rparr>])"
  by (simp add: summary_both_filters)

lemma np_histogram_bins: "bins \<le> 0 \<Longrightarrow> np_histogram xs bins = Inl (ValueError ''bins'')"
  by (simp add: np_histogram_def)

text \<open>
  C5. On a dataset that has its columns, the histogram operation called with a bin count
  of 0 or less fails, whatever the filters and the records are, with the validation error
  of \<^verbatim>\<open>np.histogram\<close>, which names the parameter \<^verbatim>\<open>bins\<close>; the error is raised before
  the range, the edges or any count is computed.
\<close>

theorem get_histogram_data_bins:
  "bins \<le> 0 \<Longrightarrow> get_histogram_data (Table rs) ai m bins = Inl (ValueError ''bins'')"
proof -
  assume b: "bins \<le> 0"
  obtain vs where "filter_data (Table rs) (default_args \<lparr> active_ingredient := ai, manufacturer := m \<rparr>)
      = Inr (Table vs)"
    using filter_data_Table by blast
  with b show ?thesis
    by (simp add: get_histogram_data_def histogram_of_view_def seq_def price_column_def np_histogram_bins)
qed

theorem get_histogram_data_bins_witness:
  "(0::int) \<le> 0 \<and> get_histogram_data (Table sample_rows) (Some ''Acetaminofen'') None 0
     = Inl (ValueError ''bins'')"
  using get_histogram_data_bins [of 0 sample_rows "Some ''Acetaminofen''" None] by simp

section \<open>The histogram\<close>

lemma length_linspace [simp]: "length (linspace a b n) = Suc n"
  by (simp add: linspace_def)

lemma linspace_nth:
  assumes "0 < n" and "i \<le> n"
  shows "linspace a b n ! i = a + real i * ((b - a) / real n)"
proof (cases "i < n")
  case True
  then show ?thesis by (simp add: linspace_def nth_append)
next
  case False
  with assms have "i = n" by simp
  with assms(1) show ?thesis by (simp add: linspace_def nth_append)
qed

lemma fold_min_Min: "fold min ys (x::real) = Min (set (x # ys))"
  by (rule Min.set_eq_fold [symmetric])

lemma fold_max_Max: "fold max ys (x::real) = Max (set (x # ys))"
  by (rule Max.set_eq_fold [symmetric])

lemma outer_edges_nonempty:
  assumes "xs \<noteq> []"
  shows "outer_edges xs =
     (if Min (set xs) = Max (set xs) then (Min (set xs) - 1 / 2, Max (set xs) + 1 / 2)
      else (Min (set xs), Max (set xs)))"
  using assms by (cases xs) (simp_all add: outer_edges_def fold_min_Min fold_max_Max del: set_simps)

lemma outer_edges_bounds:
  assumes "outer_edges xs = (a, b)"
  shows "a < b \<and> (\<forall>x\<in>set xs. a \<le> x \<and> x \<le> b)"
proof (cases "xs = []")
  case True
  with assms show ?thesis by (simp add: outer_edges_def)
next
  case False
  define lo where "lo = Min (set xs)"
  define hi where "hi = Max (set xs)"
  have le: "lo \<le> x \<and> x \<le> hi" if "x \<in> set xs" for x
    using that by (simp add: lo_def hi_def)
  from False obtain y where "y \<in> set xs" by (cases xs) auto
  with le have "lo \<le> hi" by force
  from assms False have ab: "(a, b) = (if lo = hi then (lo - 1 / 2, hi + 1 / 2) else (lo, hi))"
    by (auto simp: outer_edges_nonempty lo_def hi_def split: if_splits)
  show ?thesis
  proof (cases "lo = hi")
    case True
    with ab have "a = lo - 1 / 2" "b = hi + 1 / 2" by simp_all
    with True le show ?thesis by force
  next
    case False
    with ab have "a = lo" "b = hi" by simp_all
    with False \<open>lo \<le> hi\<close> le show ?thesis by force
  qed
qed

text \<open>A value between the first and the last of increasing edges lies in exactly one bin.\<close>

lemma half_open_count:
  fixes E :: "nat \<Rightarrow> real"
  assumes "\<forall>i<k. E i < E (Suc i)" and "E 0 \<le> x"
  shows "sum_list (map (\<lambda>i. if E i \<le> x \<and> x < E (Suc i) then 1 else 0) [0..<k])
           = (if x < E k then 1 else (0::nat))"
  using assms
proof (induction k)
  case 0
  then show ?case by simp
next
  case (Suc k)
  then have "E k < E (Suc k)" by simp
  with Suc show ?case by auto
qed

lemma one_bin_count:
  fixes E :: "nat \<Rightarrow> real"
  assumes "\<forall>i<n. E i < E (Suc i)" and "E 0 \<le> x" and "x \<le> E n" and "0 < n"
  shows "sum_list (map (\<lambda>i. if E i \<le> x \<and> (if Suc i = n then x \<le> E (Suc i) else x < E (Suc i))
            then 1 else 0) [0..<n]) = (1::nat)"
proof -
  from assms(4) obtain k where n: "n = Suc k" by (cases n) auto
  have "sum_list (map (\<lambda>i. if E i \<le> x \<and> (if Suc i = n then x \<le> E (Suc i) else x < E (Suc i))
            then 1 else 0) [0..<k])
      = sum_list (map (\<lambda>i. if E i \<le> x \<and> x < E (Suc i) then 1 else (0::nat)) [0..<k])"
    by (rule arg_cong [where f = sum_list], rule map_cong) (auto simp: n)
  also have "\<dots> = (if x < E k then 1 else 0)"
    using assms(1,2) by (intro half_open_count) (auto simp: n)
  finally show ?thesis
    using assms(3) by (auto simp: n)
qed

lemma count_swap:
  "sum_list (map (\<lambda>i. length (filter (P i) xs)) js)
     = sum_list (map (\<lambda>x. sum_list (map (\<lambda>i. if P i x then 1 else (0::nat)) js)) xs)"
proof (induction xs)
  case Nil
  then show ?case by simp
next
  case (Cons x xs)
  have "sum_list (map (\<lambda>i. length (filter (P i) (x # xs))) js)
      = sum_list (map (\<lambda>i. (if P i x then 1 else 0) + length (filter (P i) xs)) js)"
    by (rule arg_cong [where f = sum_list], rule map_cong) auto
  also have "\<dots> = sum_list (map (\<lambda>i. if P i x then 1 else 0) js)
      + sum_list (map (\<lambda>i. length (filter (P i) xs)) js)"
    by (simp add: sum_list_addf)
  finally show ?case using Cons.IH by simp
qed


lemma in_bin_Suc:
  "in_bin edges n i x =
     (edges ! i \<le> x \<and> (if Suc i = n then x \<le> edges ! Suc i else x < edges ! Suc i))"
  by (auto simp: in_bin_def)

lemma np_histogram_positive:
  assumes "0 < bins"
  obtains hist edges where
    "np_histogram xs bins = Inr (hist, edges)" and
    "length hist = nat bins" and
    "length edges = Suc (nat bins)" and
    "sum_list hist = length xs" and
    "\<forall>i<nat bins. edges ! i < edges ! Suc i" and
    "edges ! 0 = fst (outer_edges xs)" and
    "edges ! nat bins = snd (outer_edges xs)"
proof -
  define n where "n = nat bins"
  obtain a b where ab: "outer_edges xs = (a, b)" by (cases "outer_edges xs")
  define edges where "edges = linspace a b n"
  define hist where "hist = map (\<lambda>i. length (filter (in_bin edges n i) xs)) [0..<n]"
  from assms have n: "0 < n" by (simp add: n_def)
  from outer_edges_bounds [OF ab] have lt: "a < b" and inside: "\<forall>x\<in>set xs. a \<le> x \<and> x \<le> b"
    by simp_all
  have E: "edges ! i = a + real i * ((b - a) / real n)" if "i \<le> n" for i
    unfolding edges_def using n that by (rule linspace_nth)
  have step: "0 < (b - a) / real n" using lt n by simp
  have inc: "\<forall>i<n. edges ! i < edges ! Suc i"
  proof (intro allI impI)
    fix i assume "i < n"
    then have "edges ! Suc i = edges ! i + (b - a) / real n"
      by (simp add: E distrib_right add_divide_distrib add.commute)
    with step show "edges ! i < edges ! Suc i" by simp
  qed
  have first: "edges ! 0 = a" by (simp add: E)
  have last: "edges ! n = b" using n by (simp add: E)
  have one: "sum_list (map (\<lambda>i. if in_bin edges n i x then 1 else (0::nat)) [0..<n]) = 1"
    if "x \<in> set xs" for x
  proof -
    from that inside have "edges ! 0 \<le> x" and "x \<le> edges ! n"
      by (simp_all add: first last)
    from one_bin_count [of n "\<lambda>i. edges ! i" x, OF inc this n]
    show ?thesis by (simp add: in_bin_Suc)
  qed
  have "sum_list hist
      = sum_list (map (\<lambda>x. sum_list (map (\<lambda>i. if in_bin edges n i x then 1 else (0::nat)) [0..<n])) xs)"
    unfolding hist_def by (rule count_swap)
  also have "\<dots> = sum_list (map (\<lambda>x. 1) xs)"
    by (rule arg_cong [where f = sum_list], rule map_cong) (simp_all add: one)
  also have "\<dots> = length xs"
    by (simp add: sum_list_triv)
  finally have total: "sum_list hist = length xs" .
  have run: "np_histogram xs bins = Inr (hist, edges)"
    using assms by (simp add: np_histogram_def ab hist_def edges_def n_def Let_def)
  show thesis
  proof (rule that [OF run])
    show "length hist = nat bins" by (simp add: hist_def n_def)
    show "length edges = Suc (nat bins)" by (simp add: edges_def n_def)
    show "sum_list hist = length xs" by (rule total)
    show "\<forall>i<nat bins. edges ! i < edges ! Suc i" using inc by (simp add: n_def)
    show "edges ! 0 = fst (outer_edges xs)" by (simp add: first ab)
    show "edges ! nat bins = snd (outer_edges xs)" using last by (simp add: ab n_def)
  qed
qed

text \<open>
  C6 (as amended). For every non-empty view and every positive bin count the histogram
  operation returns that many bins; their counts sum to the size of the view; every bin
  starts below its end and ends where the next one starts, so the edges increase
  strictly; each normalized count is the count divided by the size of the view. The
  edges span exactly [min, max] of the prices of the view when these differ, and
  [min - 1/2, max + 1/2] when all prices of the view are equal.
\<close>

theorem get_histogram_data_view:
  assumes "filter_data df (default_args \<lparr> active_ingredient := ai, manufacturer := m \<rparr>)
             = Inr (Table vs)"
    and "vs \<noteq> []" and "0 < bins"
  shows "\<exists>bs. get_histogram_data df ai m bins = Inr bs \<and>
           length bs = nat bins \<and>
           sum_list (map binCount bs) = length vs \<and>
           (\<forall>i<length bs. binStart (bs ! i) < binEnd (bs ! i)) \<and>
           (\<forall>i. Suc i < length bs \<longrightarrow> binEnd (bs ! i) = binStart (bs ! Suc i)) \<and>
           binStart (bs ! 0) =
             (if Min (set (map precio_por_tableta vs)) = Max (set (map precio_por_tableta vs))
              then Min (set (map precio_por_tableta vs)) - 1 / 2
              else Min (set (map precio_por_tableta vs))) \<and>
           binEnd (bs ! (length bs - 1)) =
             (if Min (set (map precio_por_tableta vs)) = Max (set (map precio_por_tableta vs))
              then Max (set (map precio_por_tableta vs)) + 1 / 2
              else Max (set (map precio_por_tableta vs))) \<and>
           (\<forall>i<length bs. normalizedCount (bs ! i) = real (binCount (bs ! i)) / real (length vs))"
proof -
  define prices where "prices = map precio_por_tableta vs"
  from assms(2) have ne: "prices \<noteq> []" by (simp add: prices_def)
  from assms(3) obtain hist edges where
    run: "np_histogram prices bins = Inr (hist, edges)" and
    lh: "length hist = nat bins" and
    le: "length edges = Suc (nat bins)" and
    total: "sum_list hist = length prices" and
    inc: "\<forall>i<nat bins. edges ! i < edges ! Suc i" and
    first: "edges ! 0 = fst (outer_edges prices)" and
    last: "edges ! nat bins = snd (outer_edges prices)"
    by (rule np_histogram_positive)
  define bs where "bs = map (\<lambda>i.
            \<lparr> binStart = edges ! i, binEnd = edges ! (i + 1), binCount = hist ! i,
              normalizedCount = real (hist ! i) / real (length vs) \<rparr>) [0..<length hist]"
  from assms(1,2) run have res: "get_histogram_data df ai m bins = Inr bs"
    by (simp add: get_histogram_data_def histogram_of_view_def seq_def price_column_def prices_def len_df_def bs_def)
  have len: "length bs = nat bins" by (simp add: bs_def lh)
  have "map binCount bs = map (\<lambda>i. hist ! i) [0..<length hist]"
    by (simp add: bs_def comp_def)
  then have counts: "sum_list (map binCount bs) = length vs"
    using total by (simp add: map_nth prices_def)
  from assms(3) have pos: "0 < nat bins" by simp
  have start0: "binStart (bs ! 0) = fst (outer_edges prices)"
    using pos by (simp add: bs_def lh first)
  have "Suc (nat bins - 1) = nat bins" using pos by simp
  then have end_last: "binEnd (bs ! (length bs - 1)) = snd (outer_edges prices)"
    using pos by (simp add: bs_def lh last)
  show ?thesis
  proof (intro exI conjI)
    show "get_histogram_data df ai m bins = Inr bs" by (rule res)
    show "length bs = nat bins" by (rule len)
    show "sum_list (map binCount bs) = length vs" by (rule counts)
    show "\<forall>i<length bs. binStart (bs ! i) < binEnd (bs ! i)"
      using inc by (simp add: bs_def lh)
    show "\<forall>i. Suc i < length bs \<longrightarrow> binEnd (bs ! i) = binStart (bs ! Suc i)"
      by (simp add: bs_def lh)
    show "binStart (bs ! 0) =
             (if Min (set (map precio_por_tableta vs)) = Max (set (map precio_por_tableta vs))
              then Min (set (map precio_por_tableta vs)) - 1 / 2
              else Min (set (map precio_por_tableta vs)))"
      unfolding start0 outer_edges_nonempty [OF ne] by (simp add: prices_def)
    show "binEnd (bs ! (length bs - 1)) =
             (if Min (set (map precio_por_tableta vs)) = Max (set (map precio_por_tableta vs))
              then Max (set (map precio_por_tableta vs)) + 1 / 2
              else Max (set (map precio_por_tableta vs)))"
      unfolding end_last outer_edges_nonempty [OF ne] by (simp add: prices_def)
    show "\<forall>i<length bs. normalizedCount (bs ! i) = real (binCount (bs ! i)) / real (length vs)"
      by (simp add: bs_def)
  qed
qed

theorem get_histogram_data_view_witness:
  "filter_data (Table sample_rows) (default_args \<lparr> active_ingredient := None, manufacturer := None \<rparr>)
     = Inr (Table [sample_row 1 ''Ibuprofeno'' ''Genfar'' 10,
                   sample_row 2 ''Acetaminofen'' ''Bayer'' 20,
                   sample_row 0 ''Acetaminofen'' ''Genfar'' 30]) \<and>
   (0::int) < 2 \<and>
   (\<exists>bs. get_histogram_data (Table sample_rows) None None 2 = Inr bs \<and> length bs = 2 \<and>
      sum_list (map binCount bs) = 3 \<and> binStart (bs ! 0) = 10 \<and> binEnd (bs ! 1) = 30)"
proof -
  have run: "filter_data (Table sample_rows)
       (default_args \<lparr> active_ingredient := None, manufacturer := None \<rparr>)
     = Inr (Table [sample_row 1 ''Ibuprofeno'' ''Genfar'' 10,
                   sample_row 2 ''Acetaminofen'' ''Bayer'' 20,
                   sample_row 0 ''Acetaminofen'' ''Genfar'' 30])"
    by code_simp
  from get_histogram_data_view [OF run, of 2]
  obtain bs where "get_histogram_data (Table sample_rows) None None 2 = Inr bs"
    and "length bs = 2" and "sum_list (map binCount bs) = 3"
    and "binStart (bs ! 0) = 10" and "binEnd (bs ! (length bs - 1)) = 30"
    by (auto simp: sample_row_def)
  with run show ?thesis by auto
qed

text \<open>
  C6 as stated fails for a view whose prices are all equal: for the single price 10 the
  edges are 9.5, 10 and 10.5, not within [10, 10].
\<close>

theorem get_histogram_data_counterexample:
  "get_histogram_data (Table [sample_row 1 ''Ibuprofeno'' ''Genfar'' 10]) None None 2 =
     Inr [\<lparr> binStart = 19 / 2, binEnd = 10, binCount = 0, normalizedCount = 0 \<rparr>,
          \<lparr> binStart = 10, binEnd = 21 / 2, binCount = 1, normalizedCount = 1 \<rparr>]"
  by code_simp

section \<open>The boxplot\<close>

lemma interpolate_bounds:
  assumes "sorted s" and "0 \<le> h" and "h \<le> real (length s - 1)" and "s \<noteq> []"
  shows "s ! nat \<lfloor>h\<rfloor> \<le> interpolate s h"
    and "interpolate s h \<le> s ! (if nat \<lfloor>h\<rfloor> + 1 < length s then nat \<lfloor>h\<rfloor> + 1 else nat \<lfloor>h\<rfloor>)"
proof -
  define lo where "lo = nat \<lfloor>h\<rfloor>"
  define hi where "hi = (if lo + 1 < length s then lo + 1 else lo)"
  have lo_le: "real lo \<le> h" using assms(2) by (simp add: lo_def)
  have lt: "h < real lo + 1" using assms(2) by (simp add: lo_def)
  from assms(3,4) lo_le have "lo < length s"
    by (cases s) (auto simp: less_Suc_eq_le)
  then have hi: "hi < length s" "lo \<le> hi" by (auto simp: hi_def)
  with assms(1) have d: "s ! lo \<le> s ! hi" by (simp add: sorted_nth_mono)
  have eq: "interpolate s h = s ! lo + (h - real lo) * (s ! hi - s ! lo)"
    by (simp add: interpolate_def lo_def hi_def Let_def)
  have "0 \<le> (h - real lo) * (s ! hi - s ! lo)"
    using lo_le d by simp
  then show "s ! nat \<lfloor>h\<rfloor> \<le> interpolate s h"
    unfolding eq by (simp add: lo_def)
  have "(h - real lo) * (s ! hi - s ! lo) \<le> 1 * (s ! hi - s ! lo)"
    using lt d by (intro mult_right_mono) simp_all
  then have "interpolate s h \<le> s ! hi"
    unfolding eq by simp
  then show "interpolate s h \<le> s ! (if nat \<lfloor>h\<rfloor> + 1 < length s then nat \<lfloor>h\<rfloor> + 1 else nat \<lfloor>h\<rfloor>)"
    by (simp only: hi_def lo_def)
qed

lemma interpolate_mono:
  assumes "sorted s" and "0 \<le> h1" and "h1 \<le> h2" and "h2 \<le> real (length s - 1)" and "s \<noteq> []"
  shows "interpolate s h1 \<le> interpolate s h2"
proof (cases "nat \<lfloor>h1\<rfloor> = nat \<lfloor>h2\<rfloor>")
  case True
  define lo where "lo = nat \<lfloor>h2\<rfloor>"
  define hi where "hi = (if lo + 1 < length s then lo + 1 else lo)"
  have "real lo \<le> h2" using assms(2,3) by (simp add: lo_def)
  with assms(4,5) have "lo < length s"
    by (cases s) (auto simp: less_Suc_eq_le)
  then have "hi < length s" "lo \<le> hi" by (auto simp: hi_def)
  with assms(1) have d: "0 \<le> s ! hi - s ! lo" by (simp add: sorted_nth_mono)
  have "interpolate s h1 = s ! lo + (h1 - real lo) * (s ! hi - s ! lo)"
    by (simp add: interpolate_def lo_def hi_def Let_def True)
  moreover have "interpolate s h2 = s ! lo + (h2 - real lo) * (s ! hi - s ! lo)"
    by (simp add: interpolate_def lo_def hi_def Let_def)
  moreover have "(h1 - real lo) * (s ! hi - s ! lo) \<le> (h2 - real lo) * (s ! hi - s ! lo)"
    using assms(3) d by (intro mult_right_mono) simp_all
  ultimately show ?thesis by simp
next
  case False
  define l1 where "l1 = nat \<lfloor>h1\<rfloor>"
  define l2 where "l2 = nat \<lfloor>h2\<rfloor>"
  have "l1 \<le> l2" using assms(3) by (simp add: l1_def l2_def nat_mono floor_mono)
  with False have lt: "l1 + 1 \<le> l2" by (simp add: l1_def l2_def)
  have "real l2 \<le> h2" using assms(2,3) by (simp add: l2_def)
  with assms(4,5) have l2: "l2 < length s"
    by (cases s) (auto simp: less_Suc_eq_le)
  from assms have h1: "h1 \<le> real (length s - 1)" by simp
  have "interpolate s h1 \<le> s ! (if l1 + 1 < length s then l1 + 1 else l1)"
    unfolding l1_def by (rule interpolate_bounds(2) [OF assms(1,2) h1 assms(5)])
  also have "\<dots> \<le> s ! l2"
    using lt l2 assms(1) by (auto intro!: sorted_nth_mono)
  also have "\<dots> \<le> interpolate s h2"
    unfolding l2_def using assms by (intro interpolate_bounds(1)) simp_all
  finally show ?thesis .
qed

lemma median_interpolate:
  assumes "xs \<noteq> []"
  shows "series_median xs = Some (interpolate (sort xs) (1 / 2 * real (length xs - 1)))"
proof -
  define s where "s = sort xs"
  define n where "n = length xs"
  from assms have n: "0 < n" by (simp add: n_def)
  have ls: "length s = n" by (simp add: s_def n_def)
  with n have ne: "s \<noteq> []" by auto
  show ?thesis
  proof (cases "odd n")
    case True
    then obtain k where k: "n = 2 * k + 1" by (auto elim: oddE)
    have "1 / 2 * real (n - 1) = real k" by (simp add: k)
    then have "interpolate s (1 / 2 * real (n - 1)) = s ! k"
      by (simp add: interpolate_def Let_def)
    moreover have "n div 2 = k" by (simp add: k)
    ultimately show ?thesis
      using True n ne by (simp add: series_median_def Let_def s_def [symmetric] n_def [symmetric] ls)
  next
    case False
    then obtain k where k: "n = 2 * k" by (auto elim: evenE)
    with n have kpos: "0 < k" by simp
    then obtain j where j: "k = Suc j" by (cases k) auto
    have h: "1 / 2 * real (n - 1) = real j + 1 / 2" by (simp add: k j)
    have fl: "\<lfloor>real j + 1 / 2\<rfloor> = int j" by linarith
    have "interpolate s (1 / 2 * real (n - 1)) = s ! j + 1 / 2 * (s ! Suc j - s ! j)"
      unfolding h by (simp add: interpolate_def Let_def fl ls k j)
    also have "\<dots> = (s ! j + s ! Suc j) / 2" by (simp add: field_simps)
    finally have "interpolate s (1 / 2 * real (n - 1)) = (s ! (n div 2 - 1) + s ! (n div 2)) / 2"
      by (simp add: k j)
    then show ?thesis
      using False n ne by (simp add: series_median_def Let_def s_def [symmetric] n_def [symmetric] ls)
  qed
qed

lemma quartiles_ordered:
  assumes "xs \<noteq> []"
  shows "float_le (series_quantile (1 / 4) xs) (series_median xs) \<and>
         float_le (series_median xs) (series_quantile (3 / 4) xs)"
proof -
  define s where "s = sort xs"
  define m where "m = real (length xs - 1)"
  have ls: "length s = length xs" by (simp add: s_def)
  with assms have ne: "s \<noteq> []" by auto
  have s: "sorted s" "s \<noteq> []" "length s = length xs"
    using ne ls by (simp_all add: s_def)
  have m: "0 \<le> m" by (simp add: m_def)
  have "interpolate s (1 / 4 * m) \<le> interpolate s (1 / 2 * m)"
    using s m by (intro interpolate_mono) (simp_all add: m_def)
  moreover have "interpolate s (1 / 2 * m) \<le> interpolate s (3 / 4 * m)"
    using s m by (intro interpolate_mono) (simp_all add: m_def)
  moreover have "series_quantile (1 / 4) xs = Some (interpolate s (1 / 4 * m))"
    and "series_quantile (3 / 4) xs = Some (interpolate s (3 / 4 * m))"
    using ne by (simp_all add: series_quantile_def Let_def s_def [symmetric] ls m_def)
  moreover have "series_median xs = Some (interpolate s (1 / 2 * m))"
    unfolding s_def m_def using assms by (rule median_interpolate)
  ultimately show ?thesis
    by (simp add: float_le_def)
qed


lemma sorted_wrt_sort_reverse: "sorted_wrt (\<lambda>a b. k b \<le> k a) (sort_reverse k xs)"
proof -
  have "sorted (map k (sort_key k (rev xs)))" by (rule sorted_sort_key)
  then have "sorted_wrt (\<lambda>a b. k a \<le> k b) (sort_key k (rev xs))"
    by (simp add: sorted_map)
  then show ?thesis
    by (simp add: sort_reverse_def sorted_wrt_rev)
qed

lemma set_sort_reverse [simp]: "set (sort_reverse k xs) = set xs"
  by (simp add: sort_reverse_def)

lemma length_sort_reverse [simp]: "length (sort_reverse k xs) = length xs"
  by (simp add: sort_reverse_def)

lemma slice_to_take: "\<exists>m. slice_to n xs = take m xs"
  by (auto simp: slice_to_def)

lemma slice_to_nonneg: "0 \<le> n \<Longrightarrow> slice_to n xs = take (nat n) xs"
  by (simp add: slice_to_def)

lemma box_of_props:
  assumes "\<not> length g < 5"
  shows "5 \<le> box_count (box_of name g) \<and>
         float_le (box_q1 (box_of name g)) (box_median (box_of name g)) \<and>
         float_le (box_median (box_of name g)) (box_q3 (box_of name g))"
proof -
  define prices where "prices = sort (map precio_por_tableta g)"
  have "length prices = length g" by (simp add: prices_def)
  with assms have "prices \<noteq> []" by auto
  from quartiles_ordered [OF this] assms show ?thesis
    by (simp add: box_of_def Let_def prices_def)
qed

lemma get_boxplot_data_Boxes:
  assumes "get_boxplot_data df group_by ai lmt = Inr (Boxes bs)"
  obtains v where
    "filter_data df (default_args \<lparr> active_ingredient := ai \<rparr>) = Inr v" and
    "bs = slice_to lmt (sort_reverse box_median
            (map (\<lambda>(name, g). box_of name g)
               (filter (\<lambda>(name, g). \<not> length g < 5) (named_groups group_by (frame_rows v)))))"
  using assms unfolding get_boxplot_data_def boxplot_of_view_def seq_Inr_iff
  by (auto simp: Let_def split: if_splits)

lemma get_boxplot_data_sound:
  assumes "get_boxplot_data df group_by ai lmt = Inr (Boxes bs)"
  shows "(\<forall>b\<in>set bs. 5 \<le> box_count b \<and> float_le (box_q1 b) (box_median b) \<and>
            float_le (box_median b) (box_q3 b)) \<and>
         sorted_wrt (\<lambda>a b. float_le (box_median b) (box_median a)) bs"
proof -
  from assms obtain v where
    bs: "bs = slice_to lmt (sort_reverse box_median
            (map (\<lambda>(name, g). box_of name g)
               (filter (\<lambda>(name, g). \<not> length g < 5) (named_groups group_by (frame_rows v)))))"
    by (rule get_boxplot_data_Boxes)
  define boxplot_data where "boxplot_data = map (\<lambda>(name, g). box_of name g)
               (filter (\<lambda>(name, g). \<not> length g < 5) (named_groups group_by (frame_rows v)))"
  obtain m where m: "bs = take m (sort_reverse box_median boxplot_data)"
    using slice_to_take [of lmt "sort_reverse box_median boxplot_data"]
    by (auto simp: bs boxplot_data_def)
  have all: "5 \<le> box_count b \<and> float_le (box_q1 b) (box_median b) \<and>
            float_le (box_median b) (box_q3 b)" if "b \<in> set boxplot_data" for b
    using that box_of_props by (auto simp: boxplot_data_def)
  have sub: "set bs \<subseteq> set boxplot_data"
    unfolding m using set_take_subset [of m "sort_reverse box_median boxplot_data"] by simp
  have "sorted_wrt (\<lambda>a b. box_median b \<le> box_median a) bs"
    unfolding m by (intro sorted_wrt_take sorted_wrt_sort_reverse)
  moreover have "float_le (box_median b) (box_median a)"
    if "a \<in> set bs" and "b \<in> set bs" and "box_median b \<le> box_median a" for a b
  proof -
    from that(1,2) sub all have "float_le (box_q1 a) (box_median a)"
      and "float_le (box_q1 b) (box_median b)" by blast+
    then obtain x y where "box_median a = Some x" "box_median b = Some y"
      by (auto simp: float_le_def split: option.splits)
    with that(3) show ?thesis by (simp add: float_le_def)
  qed
  ultimately have "sorted_wrt (\<lambda>a b. float_le (box_median b) (box_median a)) bs"
    by (rule sorted_wrt_mono_rel [rotated]) auto
  with all sub show ?thesis by blast
qed

lemma get_boxplot_data_capped:
  assumes "get_boxplot_data df group_by ai lmt = Inr (Boxes bs)" and "0 \<le> lmt"
  shows "length bs \<le> nat lmt"
    and "lmt \<le> lmt' \<Longrightarrow> get_boxplot_data df group_by ai lmt' = Inr (Boxes bs') \<Longrightarrow>
           bs = take (nat lmt) bs'"
proof -
  from assms(1) obtain v where
    v: "filter_data df (default_args \<lparr> active_ingredient := ai \<rparr>) = Inr v" and
    bs: "bs = slice_to lmt (sort_reverse box_median
            (map (\<lambda>(name, g). box_of name g)
               (filter (\<lambda>(name, g). \<not> length g < 5) (named_groups group_by (frame_rows v)))))"
    by (rule get_boxplot_data_Boxes)
  from bs assms(2) show "length bs \<le> nat lmt"
    by (simp add: slice_to_nonneg)
  assume le: "lmt \<le> lmt'" and r: "get_boxplot_data df group_by ai lmt' = Inr (Boxes bs')"
  from r obtain v' where
    v': "filter_data df (default_args \<lparr> active_ingredient := ai \<rparr>) = Inr v'" and
    bs': "bs' = slice_to lmt' (sort_reverse box_median
            (map (\<lambda>(name, g). box_of name g)
               (filter (\<lambda>(name, g). \<not> length g < 5) (named_groups group_by (frame_rows v')))))"
    by (rule get_boxplot_data_Boxes)
  from v v' have "v' = v" by simp
  with bs bs' assms(2) le show "bs = take (nat lmt) bs'"
    by (simp add: slice_to_nonneg min_def)
qed

lemma get_boxplot_data_Table:
  assumes "group_by \<in> set column_names"
  shows "\<exists>bs. get_boxplot_data (Table rs) group_by ai lmt = Inr (Boxes bs)"
proof -
  obtain vs where "filter_data (Table rs) (default_args \<lparr> active_ingredient := ai \<rparr>) = Inr (Table vs)"
    using filter_data_Table by blast
  with assms show ?thesis
    by (simp add: get_boxplot_data_def boxplot_of_view_def seq_def Let_def)
qed

lemma boxplot_run_limit_1:
  "get_boxplot_data (Table boxplot_rows) ''fabricante'' None 1 =
     Inr (Boxes [\<lparr> box_name = Text ''Genfar'', box_min = Some 6, box_q1 = Some 7,
                    box_median = Some 8, box_q3 = Some 9, box_max = Some 10, box_count = 5 \<rparr>])"
  by code_simp

lemma boxplot_run_limit_minus_1:
  "get_boxplot_data (Table boxplot_rows) ''fabricante'' None (- 1) =
     Inr (Boxes [\<lparr> box_name = Text ''Genfar'', box_min = Some 6, box_q1 = Some 7,
                    box_median = Some 8, box_q3 = Some 9, box_max = Some 10, box_count = 5 \<rparr>])"
  by code_simp

text \<open>
  C7 (as amended). Whenever the boxplot operation returns groups, every returned group
  has at least 5 members and satisfies q1 \<le> median \<le> q3, and the groups are ordered by
  non-increasing median; when the limit is not negative, at most that many groups are
  returned, and they are the first ones of what any larger limit returns. For a
  recognized grouping field, on a dataset that has its columns, the operation returns
  groups (smaller groups are dropped, not an error).
\<close>

theorem get_boxplot_data_groups:
  "(get_boxplot_data df group_by ai lmt = Inr (Boxes bs) \<longrightarrow>
      (\<forall>b\<in>set bs. 5 \<le> box_count b \<and> float_le (box_q1 b) (box_median b) \<and>
         float_le (box_median b) (box_q3 b)) \<and>
      sorted_wrt (\<lambda>a b. float_le (box_median b) (box_median a)) bs \<and>
      (0 \<le> lmt \<longrightarrow>
         length bs \<le> nat lmt \<and>
         (\<forall>lmt' bs'. lmt \<le> lmt' \<and> get_boxplot_data df group_by ai lmt' = Inr (Boxes bs')
            \<longrightarrow> bs = take (nat lmt) bs'))) \<and>
   (group_by \<in> set column_names \<longrightarrow>
      (\<exists>bs'. get_boxplot_data (Table rs) group_by ai lmt = Inr (Boxes bs')))"
  using get_boxplot_data_sound [of df group_by ai lmt bs]
    get_boxplot_data_capped [of df group_by ai lmt bs]
    get_boxplot_data_Table [of group_by rs ai lmt]
  by blast

theorem get_boxplot_data_groups_witness:
  "get_boxplot_data (Table boxplot_rows) ''fabricante'' None 1 =
     Inr (Boxes [\<lparr> box_name = Text ''Genfar'', box_min = Some 6, box_q1 = Some 7,
                    box_median = Some 8, box_q3 = Some 9, box_max = Some 10, box_count = 5 \<rparr>]) \<and>
   ''fabricante'' \<in> set column_names \<and> (0::int) \<le> 1 \<and>
   float_le (Some 7) (Some 8) \<and> float_le (Some 8) (Some 9) \<and>
   length [\<lparr> box_name = Text ''Genfar'', box_min = Some 6, box_q1 = Some 7,
             box_median = Some 8, box_q3 = Some 9, box_max = Some 10, box_count = 5 \<rparr>] \<le> nat 1"
proof -
  let ?b = "\<lparr> box_name = Text ''Genfar'', box_min = Some 6, box_q1 = Some 7,
             box_median = Some 8, box_q3 = Some 9, box_max = Some 10, box_count = 5 \<rparr>"
  have col: "''fabricante'' \<in> set column_names" by (simp add: column_names_def)
  from get_boxplot_data_groups [of "Table boxplot_rows" "''fabricante''" None 1 "[?b]" boxplot_rows]
    boxplot_run_limit_1
  have "float_le (box_q1 ?b) (box_median ?b) \<and> float_le (box_median ?b) (box_q3 ?b) \<and>
        length [?b] \<le> nat 1"
    by simp
  with boxplot_run_limit_1 col show ?thesis by simp
qed

text \<open>
  C7 as stated fails for a negative limit: the slice \<^verbatim>\<open>boxplot_data[:-1]\<close> drops the
  last group only, so with two groups of 5 members one group is returned for the limit
  -1.
\<close>

theorem get_boxplot_data_counterexample:
  "get_boxplot_data (Table boxplot_rows) ''fabricante'' None (- 1) =
     Inr (Boxes [\<lparr> box_name = Text ''Genfar'', box_min = Some 6, box_q1 = Some 7,
                    box_median = Some 8, box_q3 = Some 9, box_max = Some 10, box_count = 5 \<rparr>]) \<and>
   \<not> int (length [\<lparr> box_name = Text ''Genfar'', box_min = Some 6, box_q1 = Some 7,
                    box_median = Some 8, box_q3 = Some 9, box_max = Some 10, box_count = 5 \<rparr>]) \<le> - 1"
  using boxplot_run_limit_minus_1 by simp

section \<open>Claims about the clustering engine\<close>

lemma fit_transform_Nil: "fit_transform [] = Inl (ValueError ''X'')"
  by (simp add: fit_transform_def)

lemma fit_transform_Inr:
  assumes "X \<noteq> []"
  obtains sc Xs where "fit_transform X = Inr (sc, Xs)" and "length Xs = length X"
  using assms by (simp add: fit_transform_def Let_def)

lemma collect_Inr:
  assumes "\<forall>x\<in>set xs. \<exists>y. x = Inr y"
  shows "\<exists>ys. collect xs = Inr ys"
  using assms by (induction xs) (auto simp: seq_def)

lemma label_view_invalid:
  assumes "k < 1 \<or> int (length vs) < k"
  shows "label_view km (Table vs) k
           = Inl (ValueError (if vs = [] then ''X'' else ''n_clusters''))"
proof (cases "vs = []")
  case True
  then show ?thesis
    by (simp add: label_view_def seq_def price_column_def fit_transform_Nil)
next
  case False
  then have "map precio_por_tableta vs \<noteq> []" by simp
  then obtain sc Xs where ft: "fit_transform (map precio_por_tableta vs) = Inr (sc, Xs)"
    and len: "length Xs = length (map precio_por_tableta vs)"
    by (rule fit_transform_Inr)
  from assms len have "fit_predict km k Xs = Inl (ValueError ''n_clusters'')"
    by (auto simp: fit_predict_def)
  with False ft show ?thesis
    by (simp add: label_view_def seq_def price_column_def)
qed

lemma label_view_valid:
  assumes "1 \<le> k" and "k \<le> int (length vs)" and "kmeans_contract km"
  obtains sc model where
    "label_view km (Table vs) k = Inr (sc, model, zip vs (kmeans_labels model))" and
    "length (kmeans_centers model) = nat k"
proof -
  from assms(1,2) have "map precio_por_tableta vs \<noteq> []" by auto
  then obtain sc Xs where ft: "fit_transform (map precio_por_tableta vs) = Inr (sc, Xs)"
    and len: "length Xs = length (map precio_por_tableta vs)"
    by (rule fit_transform_Inr)
  define model where "model = km (nat k) Xs"
  from assms(1,2) len have fp: "fit_predict km k Xs = Inr model"
    by (simp add: fit_predict_def model_def)
  from assms(1,2) len have "1 \<le> nat k \<and> nat k \<le> length Xs" by (simp add: nat_le_iff)
  with assms(3) have ll: "length (kmeans_labels model) = length Xs"
    and lc: "length (kmeans_centers model) = nat k"
    unfolding kmeans_contract_def model_def by blast+
  from ll len have "set_column ''cluster'' vs (kmeans_labels model) = Inr (zip vs (kmeans_labels model))"
    by (simp add: set_column_def)
  with ft fp have "label_view km (Table vs) k = Inr (sc, model, zip vs (kmeans_labels model))"
    by (simp add: label_view_def seq_def price_column_def)
  then show thesis using lc by (rule that)
qed

lemma clusters_of_labelled_valid:
  assumes "length (kmeans_centers model) = nat k"
  shows "\<exists>r. clusters_of_labelled labelled model sc k = Inr r"
proof -
  have "\<forall>x\<in>set (map (cluster_stat_of labelled model sc) [0..<nat k]). \<exists>y. x = Inr y"
    by (simp add: cluster_stat_of_def Let_def assms)
  then obtain stats where "collect (map (cluster_stat_of labelled model sc) [0..<nat k]) = Inr stats"
    using collect_Inr by blast
  then show ?thesis
    by (simp add: clusters_of_labelled_def seq_def)
qed

lemma one_cluster_contract: "kmeans_contract one_cluster"
  by (simp add: kmeans_contract_def one_cluster_def)

lemma sample_view:
  "filter_data (Table sample_rows) (default_args \<lparr> active_ingredient := None \<rparr>)
     = Inr (Table [sample_row 1 ''Ibuprofeno'' ''Genfar'' 10,
                   sample_row 2 ''Acetaminofen'' ''Bayer'' 20,
                   sample_row 0 ''Acetaminofen'' ''Genfar'' 30])"
  by code_simp

text \<open>
  C8. For every view of a dataset and every k below 1 or above the size of the view, the
  clustering operation fails with a validation error, whatever the clustering algorithm
  would compute: scikit-learn rejects the number of clusters (its message names
  \<^verbatim>\<open>n_clusters\<close>), or, for the view without records, the array without samples. For
  k from 1 to the size of the view the operation returns a result, given one label per
  record and one centre per cluster from the algorithm.
\<close>

theorem get_clustering_precondition:
  assumes "filter_data df (default_args \<lparr> active_ingredient := ai \<rparr>) = Inr (Table vs)"
  shows "(k < 1 \<or> int (length vs) < k \<longrightarrow>
            get_clustering km df ai k
              = Inl (ValueError (if vs = [] then ''X'' else ''n_clusters''))) \<and>
         (1 \<le> k \<and> k \<le> int (length vs) \<and> kmeans_contract km \<longrightarrow>
            (\<exists>r. get_clustering km df ai k = Inr r))"
proof (intro conjI impI)
  assume "k < 1 \<or> int (length vs) < k"
  from label_view_invalid [OF this, of km] assms
  show "get_clustering km df ai k = Inl (ValueError (if vs = [] then ''X'' else ''n_clusters''))"
    by (simp add: get_clustering_def seq_def)
next
  assume a: "1 \<le> k \<and> k \<le> int (length vs) \<and> kmeans_contract km"
  then obtain sc model where
    lv: "label_view km (Table vs) k = Inr (sc, model, zip vs (kmeans_labels model))" and
    lc: "length (kmeans_centers model) = nat k"
    by (elim conjE label_view_valid)
  from clusters_of_labelled_valid [OF lc]
  obtain r where "clusters_of_labelled (zip vs (kmeans_labels model)) model sc k = Inr r"
    by blast
  with assms lv show "\<exists>r. get_clustering km df ai k = Inr r"
    by (simp add: get_clustering_def seq_def)
qed

theorem get_clustering_precondition_witness:
  "filter_data (Table sample_rows) (default_args \<lparr> active_ingredient := None \<rparr>)
     = Inr (Table [sample_row 1 ''Ibuprofeno'' ''Genfar'' 10,
                   sample_row 2 ''Acetaminofen'' ''Bayer'' 20,
                   sample_row 0 ''Acetaminofen'' ''Genfar'' 30]) \<and>
   get_clustering one_cluster (Table sample_rows) None 0 = Inl (ValueError ''n_clusters'') \<and>
   get_clustering one_cluster (Table sample_rows) None 4 = Inl (ValueError ''n_clusters'') \<and>
   kmeans_contract one_cluster \<and>
   (\<exists>r. get_clustering one_cluster (Table sample_rows) None 2 = Inr r)"
  using get_clustering_precondition [OF sample_view, of 0 one_cluster]
    get_clustering_precondition [OF sample_view, of 4 one_cluster]
    get_clustering_precondition [OF sample_view, of 2 one_cluster]
    sample_view one_cluster_contract
  by simp

section \<open>Claims about the anomaly engine\<close>

lemma set_column_Inr:
  "set_column c rs vals = Inr labelled \<longleftrightarrow> length vals = length rs \<and> labelled = zip rs vals"
  by (auto simp: set_column_def)

lemma anomalies_of_view_Inr:
  assumes "anomalies_of_view forest (Table vs) c = Inr (labels, r)"
  obtains Xs where
    "length (forest c Xs) = length vs" and
    "0 < c \<and> c \<le> 1 / 2" and
    "vs \<noteq> []" and
    "labels = map map_anomaly (forest c Xs)" and
    "r = anomalies_of_labelled (zip vs (map map_anomaly (forest c Xs)))"
proof -
  from assms obtain sc Xs preds labelled where
    ft: "fit_transform (map precio_por_tableta vs) = Inr (sc, Xs)" and
    fp: "forest_fit_predict forest c Xs = Inr preds" and
    st: "set_column ''anomaly'' vs (map map_anomaly preds) = Inr labelled" and
    res: "labels = map map_anomaly preds" "r = anomalies_of_labelled labelled"
    by (auto simp: anomalies_of_view_def seq_Inr_iff price_column_def)
  from ft have ne: "vs \<noteq> []" by (auto simp: fit_transform_def)
  from fp have c: "0 < c \<and> c \<le> 1 / 2" and preds: "preds = forest c Xs"
    by (auto simp: forest_fit_predict_def split: if_splits)
  from st have "length preds = length vs" and "labelled = zip vs (map map_anomaly preds)"
    by (simp_all add: set_column_Inr)
  with preds res c ne show thesis by (intro that [of Xs]) simp_all
qed

lemma anomalies_of_view_valid:
  assumes "vs \<noteq> []" and "0 < c" and "c \<le> 1 / 2" and "forest_contract forest"
  shows "\<exists>r. anomalies_of_view forest (Table vs) c = Inr r"
proof -
  from assms(1) have "map precio_por_tableta vs \<noteq> []" by simp
  then obtain sc Xs where ft: "fit_transform (map precio_por_tableta vs) = Inr (sc, Xs)"
    and len: "length Xs = length (map precio_por_tableta vs)"
    by (rule fit_transform_Inr)
  from assms(4) have "length (forest c Xs) = length Xs"
    by (simp add: forest_contract_def)
  with len ft assms(2,3) show ?thesis
    by (simp add: anomalies_of_view_def seq_def price_column_def forest_fit_predict_def
        set_column_def)
qed

lemma labelled_partition:
  assumes "\<forall>p\<in>set preds. p = 1 \<or> p = - 1" and "length preds = length vs"
  shows "length (filter (\<lambda>(r, a). a = Some 0) (zip vs (map map_anomaly preds)))
       + length (filter (\<lambda>(r, a). a = Some 1) (zip vs (map map_anomaly preds))) = length vs"
proof -
  let ?l = "zip vs (map map_anomaly preds)"
  have "snd q = Some 0 \<or> snd q = Some 1" if "q \<in> set ?l" for q
  proof -
    obtain a b where q: "q = (a, b)" by (cases q)
    with that have "snd q \<in> set (map map_anomaly preds)"
      by (auto dest: set_zip_rightD)
    with assms(1) show ?thesis by (auto simp: map_anomaly_def)
  qed
  then have "filter (\<lambda>(r, a). a = Some 1) ?l = filter (\<lambda>q. \<not> (case q of (r, a) \<Rightarrow> a = Some 0)) ?l"
    by (intro filter_cong) (auto simp: case_prod_beta)
  then have "length (filter (\<lambda>(r, a). a = Some 0) ?l) + length (filter (\<lambda>(r, a). a = Some 1) ?l)
      = length ?l"
    by (simp add: sum_length_filter_compl)
  with assms(2) show ?thesis by simp
qed

lemma anomaly_flags:
  "\<forall>a\<in>set (anomaly_data (anomalies_of_labelled labelled)). is_anomaly a"
  by (auto simp: anomalies_of_labelled_def Let_def anomaly_record_of_def py_bool_def)

lemma anomaly_data_length:
  "length (anomaly_data (anomalies_of_labelled labelled))
     = anomaly_count (anomalies_stats (anomalies_of_labelled labelled))"
  by (simp add: anomalies_of_labelled_def Let_def)

lemma get_anomalies_Inr:
  assumes "filter_data df (default_args \<lparr> active_ingredient := ai \<rparr>) = Inr (Table vs)"
    and "get_anomalies forest df ai c = Inr r"
  obtains Xs where
    "length (forest c Xs) = length vs" and
    "r = anomalies_of_labelled (zip vs (map map_anomaly (forest c Xs)))"
proof -
  from assms obtain labels where "anomalies_of_view forest (Table vs) c = Inr (labels, r)"
    by (auto simp: get_anomalies_def seq_def split: sum.splits)
  then show thesis
    by (rule anomalies_of_view_Inr) (rule that)
qed





lemma anomalies_sample_run:
  "get_anomalies flag_first (Table sample_rows) None (1 / 20) =
     Inr \<lparr> anomalies_stats =
             \<lparr> normal_count = 2, anomaly_count = 1, normal_avg_price = Some 25,
               anomaly_avg_price = Some 10, price_threshold_upper = Some (25 + 2 * sqrt 50),
               price_threshold_lower = Some (25 - 2 * sqrt 50) \<rparr>,
           anomaly_data =
             [\<lparr> anomaly_id = 1, anomaly_nombre_comercial = Some ''Marca'',
                anomaly_principio_activo = Some ''Ibuprofeno'', anomaly_fabricante = Some ''Genfar'',
                anomaly_precio_por_tableta = 10, is_anomaly = True \<rparr>] \<rparr>"
  by (simp add: get_anomalies_def anomalies_of_view_def anomalies_of_labelled_def
      filter_data_def seq_def where_eq_def where_ge_def
      where_le_def truthy_def apply_sort_def apply_limit_def head_def sort_values_def
      text_column_def sort_rows_def lower_def lower_char_def column_names_def default_args_def
      sample_rows_def sample_row_def price_column_def fit_transform_def forest_fit_predict_def
      flag_first_def set_column_def map_anomaly_def series_mean_def series_std_def plus_two_def
      minus_two_def sort_reverse_def Let_def anomaly_record_of_def py_bool_def power2_eq_square)

lemma flag_first_contract: "forest_contract flag_first"
  by (auto simp: forest_contract_def flag_first_def split: list.splits)





text \<open>
  C10. Given predictions of 1 or -1, one for each record, the anomaly detection
  partitions the view: in every result the normal count plus the anomaly count is the
  size of the view, the returned anomaly records are as many as the anomaly count, and
  each of them carries the flag true. For a view that is not empty and a contamination
  in (0, 0.5] there is a result.
\<close>

theorem get_anomalies_partition:
  assumes "forest_contract forest"
    and "filter_data df (default_args \<lparr> active_ingredient := ai \<rparr>) = Inr (Table vs)"
  shows "(get_anomalies forest df ai c = Inr r \<longrightarrow>
            normal_count (anomalies_stats r) + anomaly_count (anomalies_stats r) = length vs \<and>
            (\<forall>a\<in>set (anomaly_data r). is_anomaly a) \<and>
            length (anomaly_data r) = anomaly_count (anomalies_stats r)) \<and>
         (vs \<noteq> [] \<and> 0 < c \<and> c \<le> 1 / 2 \<longrightarrow> (\<exists>r'. get_anomalies forest df ai c = Inr r'))"
proof (intro conjI impI)
  assume res: "get_anomalies forest df ai c = Inr r"
  from assms(2) res obtain Xs where
    len: "length (forest c Xs) = length vs" and
    r: "r = anomalies_of_labelled (zip vs (map map_anomaly (forest c Xs)))"
    by (rule get_anomalies_Inr)
  from assms(1) have "\<forall>p\<in>set (forest c Xs). p = 1 \<or> p = - 1"
    by (simp add: forest_contract_def)
  from labelled_partition [OF this len]
  show "normal_count (anomalies_stats r) + anomaly_count (anomalies_stats r) = length vs"
    by (simp add: r anomalies_of_labelled_def Let_def)
  show "\<forall>a\<in>set (anomaly_data r). is_anomaly a"
    unfolding r by (rule anomaly_flags)
  show "length (anomaly_data r) = anomaly_count (anomalies_stats r)"
    unfolding r by (rule anomaly_data_length)
next
  assume "vs \<noteq> [] \<and> 0 < c \<and> c \<le> 1 / 2"
  with assms(1) obtain r where "anomalies_of_view forest (Table vs) c = Inr r"
    using anomalies_of_view_valid by blast
  with assms(2) show "\<exists>r'. get_anomalies forest df ai c = Inr r'"
    by (cases r) (simp add: get_anomalies_def seq_def)
qed

theorem get_anomalies_partition_witness:
  "forest_contract flag_first \<and>
   filter_data (Table sample_rows) (default_args \<lparr> active_ingredient := None \<rparr>)
     = Inr (Table [sample_row 1 ''Ibuprofeno'' ''Genfar'' 10,
                   sample_row 2 ''Acetaminofen'' ''Bayer'' 20,
                   sample_row 0 ''Acetaminofen'' ''Genfar'' 30]) \<and>
   get_anomalies flag_first (Table sample_rows) None (1 / 20) =
     Inr \<lparr> anomalies_stats =
             \<lparr> normal_count = 2, anomaly_count = 1, normal_avg_price = Some 25,
               anomaly_avg_price = Some 10, price_threshold_upper = Some (25 + 2 * sqrt 50),
               price_threshold_lower = Some (25 - 2 * sqrt 50) \<rparr>,
           anomaly_data =
             [\<lparr> anomaly_id = 1, anomaly_nombre_comercial = Some ''Marca'',
                anomaly_principio_activo = Some ''Ibuprofeno'', anomaly_fabricante = Some ''Genfar'',
                anomaly_precio_por_tableta = 10, is_anomaly = True \<rparr>] \<rparr> \<and>
   (2::nat) + 1 = length [sample_row 1 ''Ibuprofeno'' ''Genfar'' 10,
                   sample_row 2 ''Acetaminofen'' ''Bayer'' 20,
                   sample_row 0 ''Acetaminofen'' ''Genfar'' 30]"
proof -
  from get_anomalies_partition [OF flag_first_contract sample_view, of "1 / 20"]
    anomalies_sample_run
  have "(2::nat) + 1 = length [sample_row 1 ''Ibuprofeno'' ''Genfar'' 10,
                   sample_row 2 ''Acetaminofen'' ''Bayer'' 20,
                   sample_row 0 ''Acetaminofen'' ''Genfar'' 30]"
    by simp
  with flag_first_contract sample_view anomalies_sample_run show ?thesis by simp
qed

section \<open>Claims about the empty dataset\<close>

text \<open>
  C3. For an empty dataset (the frame without columns that stands for an absent file, or
  a table without rows) every endpoint, that is the data query, the summary, the
  histogram, the boxplot, the clustering and the anomaly detection, answers with the
  error "No data available", whatever its parameters are and whatever the learning
  algorithms would compute: the check comes before the call into the service.
\<close>

theorem empty_dataset_no_data:
  "empty_df df \<Longrightarrow>
     get_data df a = Inr no_data \<and>
     get_summary df ai m = Inr no_data \<and>
     get_histogram df ai m bins = Inr no_data \<and>
     get_boxplot df group_by ai lmt = Inr no_data \<and>
     get_clusters km df ai k = Inr no_data \<and>
     get_anomalies_endpoint forest df ai c = Inr no_data"
  by (simp add: get_data_def get_summary_def get_histogram_def get_boxplot_def get_clusters_def
      get_anomalies_endpoint_def)

theorem empty_dataset_no_data_witness:
  "empty_df NoColumns \<and> empty_df (Table []) \<and>
   get_data NoColumns default_args = Inr (ErrorResponse 500 ''No data available'') \<and>
   get_summary (Table []) (Some ''Acetaminofen'') None = Inr (ErrorResponse 500 ''No data available'') \<and>
   get_histogram NoColumns None None 10 = Inr (ErrorResponse 500 ''No data available'') \<and>
   get_boxplot (Table []) ''fabricante'' (Some ''Acetaminofen'') 10
     = Inr (ErrorResponse 500 ''No data available'') \<and>
   get_clusters one_cluster NoColumns None 3 = Inr (ErrorResponse 500 ''No data available'') \<and>
   get_anomalies_endpoint all_inliers (Table []) (Some ''Acetaminofen'') (1 / 20)
     = Inr (ErrorResponse 500 ''No data available'')"
proof -
  have e: "empty_df NoColumns" "empty_df (Table [])" by (simp_all add: empty_df_def)
  from empty_dataset_no_data [OF e(1), of default_args None None 10 "''fabricante''" 10 one_cluster 3 all_inliers "1 / 20"]
    empty_dataset_no_data [OF e(2), of default_args "Some ''Acetaminofen''" None 10 "''fabricante''" 10 one_cluster 3 all_inliers "1 / 20"]
    e
  show ?thesis by (simp add: no_data_def)
qed

section \<open>Claims about the objects\<close>

lemma seq_Inl [simp]: "seq (Inl e) f = Inl e"
  by (simp add: seq_def)

lemma seq_Inr [simp]: "seq (Inr x) f = f x"
  by (simp add: seq_def)

lemma seq_assoc: "seq (seq m f) g = seq m (\<lambda>x. seq (f x) g)"
  by (cases m) simp_all

lemma where_eq_if: "(if truthy p then where_eq c col p d else Inr d) = where_eq c col p d"
  by (simp add: where_eq_def)

lemma where_ge_if: "(if b \<noteq> None then where_ge b d else Inr d) = where_ge b d"
  by (auto simp: where_ge_def)

lemma where_le_if: "(if b \<noteq> None then where_le b d else Inr d) = where_le b d"
  by (auto simp: where_le_def)

lemma apply_sort_if:
  "(if by \<in> set (columns d) then Inr (apply_sort by ord d) else Inr d) = Inr (apply_sort by ord d)"
  by (simp add: apply_sort_def)

lemma apply_limit_if:
  "(if l \<noteq> None \<and> l \<noteq> Some 0 then Inr (apply_limit l d) else Inr d) = Inr (apply_limit l d)"
  by (auto simp: apply_limit_def)

lemma filter_data_fold:
  "filter_data df a =
     foldl (\<lambda>v (c, f). seq v (\<lambda>d. if c d then f d else Inr d)) (Inr df) (filter_steps a)"
  by (simp add: filter_data_def filter_steps_def seq_assoc where_eq_if where_ge_if where_le_if
      apply_sort_if apply_limit_if del: not_None_eq)

lemma tracks_step:
  assumes "tracks base v (m s0)"
  shows "tracks base (seq v (\<lambda>d. if c d then f d else Inr d)) (then_do m (rebind_if c f) s0)"
proof (cases "m s0")
  case (Pair res s)
  show ?thesis
  proof (cases res)
    case (Inl e)
    with Pair assms show ?thesis by (simp add: tracks_def then_do_def)
  next
    case (Inr r)
    with Pair assms have base: "take (length base) s = base" and lo: "length base \<le> r"
      and hi: "r < length s" and v: "v = Inr (frame_at s r)"
      by (simp_all add: tracks_def)
    show ?thesis
    proof (cases "c (frame_at s r)")
      case False
      with Pair Inr base lo hi v show ?thesis
        by (simp add: tracks_def then_do_def rebind_if_def)
    next
      case True
      show ?thesis
      proof (cases "f (frame_at s r)")
        case (Inl e)
        with True Pair Inr base v show ?thesis
          by (simp add: tracks_def then_do_def rebind_if_def derive_def)
      next
        case (Inr d)
        from lo hi have "length base \<le> length s" by simp
        with True Pair \<open>res = Inr r\<close> Inr base v show ?thesis
          by (simp add: tracks_def then_do_def rebind_if_def derive_def new_frame_def frame_at_def)
      qed
    qed
  qed
qed

lemma tracks_fold:
  assumes "tracks base v (m s0)"
  shows "tracks base (foldl (\<lambda>v (c, f). seq v (\<lambda>d. if c d then f d else Inr d)) v steps)
           (foldl (\<lambda>m (c, f). then_do m (rebind_if c f)) m steps s0)"
  using assms
proof (induction steps arbitrary: v m)
  case Nil
  then show ?case by simp
next
  case (Cons st steps)
  obtain c f where st: "st = (c, f)" by (cases st)
  have "tracks base (seq v (\<lambda>d. if c d then f d else Inr d)) (then_do m (rebind_if c f) s0)"
    using Cons.prems by (rule tracks_step)
  then show ?case unfolding st by (simp add: Cons.IH)
qed

lemma tracks_filter_data:
  "tracks s (filter_data (frame_at s (df_ref self)) a) (filter_data_obj self a s)"
  unfolding filter_data_fold filter_data_obj_def
  by (rule tracks_fold) (simp add: tracks_def new_frame_def frame_at_def)


lemma filter_data_obj_frame: "take (length s) (snd (filter_data_obj self a s)) = s"
  using tracks_filter_data [of s self a] by (simp add: tracks_def)

lemma filter_data_obj_Inr:
  assumes "fst (filter_data_obj self a s) = Inr r"
  shows "length s \<le> r" and "r < length (snd (filter_data_obj self a s))"
    and "filter_data (frame_at s (df_ref self)) a = Inr (frame_at (snd (filter_data_obj self a s)) r)"
  using tracks_filter_data [of s self a] assms by (simp_all add: tracks_def)

lemma filter_data_obj_Inl:
  assumes "fst (filter_data_obj self a s) = Inl e"
  shows "filter_data (frame_at s (df_ref self)) a = Inl e"
  using tracks_filter_data [of s self a] assms by (simp add: tracks_def)

lemma reading_frame:
  "take (length s) (snd (then_do (filter_data_obj self a) (\<lambda>r s'. (body (frame_at s' r), s')) s)) = s"
  using filter_data_obj_frame [of s self a]
  by (cases "filter_data_obj self a s") (auto simp: then_do_def split: sum.splits)

lemma reading_value:
  "fst (then_do (filter_data_obj self a) (\<lambda>r s'. (body (frame_at s' r), s')) s)
     = seq (filter_data (frame_at s (df_ref self)) a) body"
proof (cases "fst (filter_data_obj self a s)")
  case (Inl e)
  from filter_data_obj_Inl [OF this] Inl show ?thesis
    by (cases "filter_data_obj self a s") (simp add: then_do_def)
next
  case (Inr r)
  from filter_data_obj_Inr(3) [OF this] Inr show ?thesis
    by (cases "filter_data_obj self a s") (simp add: then_do_def)
qed

lemma write_column_frame:
  assumes "take n s = base" and "n \<le> r"
  shows "take n (write_column r c vals s) = base"
  using assms by (simp add: write_column_def)

lemma get_clustering_obj_frame:
  "take (length s) (snd (get_clustering_obj km self ai k s)) = s"
proof (cases "filter_data_obj self (default_args \<lparr> active_ingredient := ai \<rparr>) s")
  case (Pair res s')
  with filter_data_obj_frame [of s self "default_args \<lparr> active_ingredient := ai \<rparr>"]
  have base: "take (length s) s' = s" by simp
  show ?thesis
  proof (cases res)
    case (Inl e)
    with Pair base show ?thesis by (simp add: get_clustering_obj_def then_do_def)
  next
    case (Inr r)
    with Pair filter_data_obj_Inr(1) [of self "default_args \<lparr> active_ingredient := ai \<rparr>" s r]
    have "length s \<le> r" by simp
    with base have "take (length s) (write_column r c vals s') = s" for c vals
      by (rule write_column_frame)
    with Pair Inr base show ?thesis
      by (simp add: get_clustering_obj_def then_do_def split: sum.splits prod.splits)
  qed
qed

lemma get_clustering_obj_value:
  "fst (get_clustering_obj km self ai k s) = get_clustering km (frame_at s (df_ref self)) ai k"
proof (cases "filter_data_obj self (default_args \<lparr> active_ingredient := ai \<rparr>) s")
  case (Pair res s')
  show ?thesis
  proof (cases res)
    case (Inl e)
    with Pair filter_data_obj_Inl [of self "default_args \<lparr> active_ingredient := ai \<rparr>" s e]
    show ?thesis by (simp add: get_clustering_obj_def get_clustering_def then_do_def)
  next
    case (Inr r)
    with Pair filter_data_obj_Inr(3) [of self "default_args \<lparr> active_ingredient := ai \<rparr>" s r]
    show ?thesis
      by (simp add: get_clustering_obj_def get_clustering_def then_do_def
          split: sum.splits prod.splits)
  qed
qed

lemma get_anomalies_obj_frame:
  "take (length s) (snd (get_anomalies_obj forest self ai c s)) = s"
proof (cases "filter_data_obj self (default_args \<lparr> active_ingredient := ai \<rparr>) s")
  case (Pair res s')
  with filter_data_obj_frame [of s self "default_args \<lparr> active_ingredient := ai \<rparr>"]
  have base: "take (length s) s' = s" by simp
  show ?thesis
  proof (cases res)
    case (Inl e)
    with Pair base show ?thesis by (simp add: get_anomalies_obj_def then_do_def)
  next
    case (Inr r)
    with Pair filter_data_obj_Inr(1) [of self "default_args \<lparr> active_ingredient := ai \<rparr>" s r]
    have "length s \<le> r" by simp
    with base have "take (length s) (write_column r col vals s') = s" for col vals
      by (rule write_column_frame)
    with Pair Inr base show ?thesis
      by (simp add: get_anomalies_obj_def then_do_def split: sum.splits prod.splits)
  qed
qed

lemma get_anomalies_obj_value:
  "fst (get_anomalies_obj forest self ai c s) = get_anomalies forest (frame_at s (df_ref self)) ai c"
proof (cases "filter_data_obj self (default_args \<lparr> active_ingredient := ai \<rparr>) s")
  case (Pair res s')
  show ?thesis
  proof (cases res)
    case (Inl e)
    with Pair filter_data_obj_Inl [of self "default_args \<lparr> active_ingredient := ai \<rparr>" s e]
    show ?thesis by (simp add: get_anomalies_obj_def get_anomalies_def then_do_def)
  next
    case (Inr r)
    with Pair filter_data_obj_Inr(3) [of self "default_args \<lparr> active_ingredient := ai \<rparr>" s r]
    show ?thesis
      by (simp add: get_anomalies_obj_def get_anomalies_def then_do_def
          split: sum.splits prod.splits)
  qed
qed

lemma take_nth_same:
  assumes "take (length s) s' = s" and "r < length s"
  shows "s' ! r = s ! r"
proof -
  from assms(2) have "take (length s) s' ! r = s' ! r" by simp
  with assms(1) show ?thesis by simp
qed

lemma filter_data_obj_run:
  "filter_data_obj sample_service default_args sample_store =
     (Inr 3,
      [\<lparr> obj_frame = Table sample_rows, obj_added = [] \<rparr>,
       \<lparr> obj_frame = Table sample_rows, obj_added = [] \<rparr>,
       \<lparr> obj_frame = Table [sample_row 1 ''Ibuprofeno'' ''Genfar'' 10,
                            sample_row 2 ''Acetaminofen'' ''Bayer'' 20,
                            sample_row 0 ''Acetaminofen'' ''Genfar'' 30], obj_added = [] \<rparr>,
       \<lparr> obj_frame = Table [sample_row 1 ''Ibuprofeno'' ''Genfar'' 10,
                            sample_row 2 ''Acetaminofen'' ''Bayer'' 20,
                            sample_row 0 ''Acetaminofen'' ''Genfar'' 30], obj_added = [] \<rparr>])"
  by code_simp

text \<open>
  C2. Every operation of the service (filter, summary, histogram, boxplot, clustering,
  anomaly detection), whether it returns or raises, leaves every object that existed
  before the call as it was, so the dataset that \<^verbatim>\<open>self.df\<close> refers to equals its
  state before the call; each operation computes what its value-level definition
  computes of the dataset. The reference that the filter operation returns is to an
  object allocated during the call, never to the dataset, and the frame of that object
  is the filtered view.
\<close>

theorem operations_leave_dataset:
  "take (length s) (snd (filter_data_obj self a s)) = s \<and>
   (\<forall>r. fst (filter_data_obj self a s) = Inr r \<longrightarrow>
      length s \<le> r \<and> r < length (snd (filter_data_obj self a s)) \<and>
      filter_data (frame_at s (df_ref self)) a = Inr (frame_at (snd (filter_data_obj self a s)) r)) \<and>
   take (length s) (snd (get_summary_stats_obj self ai m s)) = s \<and>
   fst (get_summary_stats_obj self ai m s) = get_summary_stats (frame_at s (df_ref self)) ai m \<and>
   take (length s) (snd (get_histogram_data_obj self ai m bins s)) = s \<and>
   fst (get_histogram_data_obj self ai m bins s)
     = get_histogram_data (frame_at s (df_ref self)) ai m bins \<and>
   take (length s) (snd (get_boxplot_data_obj self group_by ai lmt s)) = s \<and>
   fst (get_boxplot_data_obj self group_by ai lmt s)
     = get_boxplot_data (frame_at s (df_ref self)) group_by ai lmt \<and>
   take (length s) (snd (get_clustering_obj km self ai k s)) = s \<and>
   fst (get_clustering_obj km self ai k s) = get_clustering km (frame_at s (df_ref self)) ai k \<and>
   take (length s) (snd (get_anomalies_obj forest self ai c s)) = s \<and>
   fst (get_anomalies_obj forest self ai c s) = get_anomalies forest (frame_at s (df_ref self)) ai c \<and>
   (df_ref self < length s \<longrightarrow>
      snd (filter_data_obj self a s) ! df_ref self = s ! df_ref self \<and>
      snd (get_summary_stats_obj self ai m s) ! df_ref self = s ! df_ref self \<and>
      snd (get_histogram_data_obj self ai m bins s) ! df_ref self = s ! df_ref self \<and>
      snd (get_boxplot_data_obj self group_by ai lmt s) ! df_ref self = s ! df_ref self \<and>
      snd (get_clustering_obj km self ai k s) ! df_ref self = s ! df_ref self \<and>
      snd (get_anomalies_obj forest self ai c s) ! df_ref self = s ! df_ref self \<and>
      (\<forall>r. fst (filter_data_obj self a s) = Inr r \<longrightarrow> r \<noteq> df_ref self))"
proof -
  have f1: "take (length s) (snd (filter_data_obj self a s)) = s"
    by (rule filter_data_obj_frame)
  have f2: "\<forall>r. fst (filter_data_obj self a s) = Inr r \<longrightarrow>
      length s \<le> r \<and> r < length (snd (filter_data_obj self a s)) \<and>
      filter_data (frame_at s (df_ref self)) a = Inr (frame_at (snd (filter_data_obj self a s)) r)"
    using filter_data_obj_Inr [of self a s] by blast
  have s1: "take (length s) (snd (get_summary_stats_obj self ai m s)) = s"
    unfolding get_summary_stats_obj_def by (rule reading_frame)
  have s2: "fst (get_summary_stats_obj self ai m s) = get_summary_stats (frame_at s (df_ref self)) ai m"
    unfolding get_summary_stats_obj_def get_summary_stats_def by (rule reading_value)
  have h1: "take (length s) (snd (get_histogram_data_obj self ai m bins s)) = s"
    unfolding get_histogram_data_obj_def by (rule reading_frame)
  have h2: "fst (get_histogram_data_obj self ai m bins s)
     = get_histogram_data (frame_at s (df_ref self)) ai m bins"
    unfolding get_histogram_data_obj_def get_histogram_data_def by (rule reading_value)
  have b1: "take (length s) (snd (get_boxplot_data_obj self group_by ai lmt s)) = s"
    unfolding get_boxplot_data_obj_def by (rule reading_frame)
  have b2: "fst (get_boxplot_data_obj self group_by ai lmt s)
     = get_boxplot_data (frame_at s (df_ref self)) group_by ai lmt"
    unfolding get_boxplot_data_obj_def get_boxplot_data_def by (rule reading_value)
  have c1: "take (length s) (snd (get_clustering_obj km self ai k s)) = s"
    by (rule get_clustering_obj_frame)
  have c2: "fst (get_clustering_obj km self ai k s) = get_clustering km (frame_at s (df_ref self)) ai k"
    by (rule get_clustering_obj_value)
  have a1: "take (length s) (snd (get_anomalies_obj forest self ai c s)) = s"
    by (rule get_anomalies_obj_frame)
  have a2: "fst (get_anomalies_obj forest self ai c s) = get_anomalies forest (frame_at s (df_ref self)) ai c"
    by (rule get_anomalies_obj_value)
  have same: "df_ref self < length s \<longrightarrow>
      snd (filter_data_obj self a s) ! df_ref self = s ! df_ref self \<and>
      snd (get_summary_stats_obj self ai m s) ! df_ref self = s ! df_ref self \<and>
      snd (get_histogram_data_obj self ai m bins s) ! df_ref self = s ! df_ref self \<and>
      snd (get_boxplot_data_obj self group_by ai lmt s) ! df_ref self = s ! df_ref self \<and>
      snd (get_clustering_obj km self ai k s) ! df_ref self = s ! df_ref self \<and>
      snd (get_anomalies_obj forest self ai c s) ! df_ref self = s ! df_ref self \<and>
      (\<forall>r. fst (filter_data_obj self a s) = Inr r \<longrightarrow> r \<noteq> df_ref self)"
    using take_nth_same [OF f1] take_nth_same [OF s1] take_nth_same [OF h1] take_nth_same [OF b1]
      take_nth_same [OF c1] take_nth_same [OF a1] f2
    by auto
  from f1 f2 s1 s2 h1 h2 b1 b2 c1 c2 a1 a2 same show ?thesis
    by (intro conjI)
qed

theorem operations_leave_dataset_witness:
  "df_ref sample_service < length sample_store \<and>
   fst (filter_data_obj sample_service default_args sample_store) = Inr 3 \<and>
   (3::nat) \<noteq> df_ref sample_service \<and>
   snd (filter_data_obj sample_service default_args sample_store) ! df_ref sample_service
     = \<lparr> obj_frame = Table sample_rows, obj_added = [] \<rparr> \<and>
   snd (get_clustering_obj one_cluster sample_service None 2 sample_store) ! df_ref sample_service
     = \<lparr> obj_frame = Table sample_rows, obj_added = [] \<rparr> \<and>
   snd (get_anomalies_obj flag_first sample_service None (1 / 20) sample_store) ! df_ref sample_service
     = \<lparr> obj_frame = Table sample_rows, obj_added = [] \<rparr>"
proof -
  have valid: "df_ref sample_service < length sample_store"
    by (simp add: sample_service_def sample_store_def)
  have at: "sample_store ! df_ref sample_service = \<lparr> obj_frame = Table sample_rows, obj_added = [] \<rparr>"
    by (simp add: sample_service_def sample_store_def)
  have run: "fst (filter_data_obj sample_service default_args sample_store) = Inr 3"
    by (simp add: filter_data_obj_run)
  from operations_leave_dataset [where s = sample_store and self = sample_service
      and a = default_args and ai = None and km = one_cluster and k = 2
      and forest = flag_first and c = "1 / 20"] valid run
  have "(3::nat) \<noteq> df_ref sample_service"
    and "snd (filter_data_obj sample_service default_args sample_store) ! df_ref sample_service
      = sample_store ! df_ref sample_service"
    and "snd (get_clustering_obj one_cluster sample_service None 2 sample_store) ! df_ref sample_service
      = sample_store ! df_ref sample_service"
    and "snd (get_anomalies_obj flag_first sample_service None (1 / 20) sample_store) ! df_ref sample_service
      = sample_store ! df_ref sample_service"
    by blast+
  with valid run at show ?thesis by simp
qed

end
